theory Spec2Isabelle
  imports Complex_Main
begin

section \<open>Python values and exceptions\<close>

text \<open>
  Every \<^verbatim>\<open>raise\<close> of the modelled functions is a value of \<open>py_error\<close>; a function
  that may raise returns \<open>py_error + 'a\<close> with \<open>Inl\<close> for the exception.
\<close>

datatype py_error =
    TypeError
  | ZeroDivisionError
  | ValueError
  | KeyError
  | ConnectionError
  | HttpStatusError nat
  | JsonParseError
  | KrakenApiError "string list"

text \<open>\<^verbatim>\<open>s.startswith(p)\<close> and \<^verbatim>\<open>p in s\<close> on strings.\<close>

fun startswith :: "string \<Rightarrow> string \<Rightarrow> bool" where
  "startswith s [] = True"
| "startswith [] (p # ps) = False"
| "startswith (c # cs) (p # ps) = (c = p \<and> startswith cs ps)"

fun str_contains :: "string \<Rightarrow> string \<Rightarrow> bool" where
  "str_contains p [] = (p = [])"
| "str_contains p (c # cs) = (startswith (c # cs) p \<or> str_contains p cs)"

text \<open>\<^verbatim>\<open>s.split(sep)\<close> for a one-character separator: always at least one piece.\<close>

fun py_split :: "char \<Rightarrow> string \<Rightarrow> string list" where
  "py_split sep [] = [[]]"
| "py_split sep (c # cs) =
     (if c = sep then [] # py_split sep cs
      else (case py_split sep cs of
              [] \<Rightarrow> [[c]]
            | w # ws \<Rightarrow> (c # w) # ws))"

section \<open>exchange_api.py: the nonce manager\<close>

text \<open>
  \<^verbatim>\<open>KrakenNonceManager\<close>. The lock makes \<^verbatim>\<open>get_nonce\<close> atomic, so a run of the
  manager is a sequence of calls. The argument \<open>clock\<close> is the value of
  \<^verbatim>\<open>int(time.time() * 1000)\<close> read by the call. Python integers are unbounded: \<open>int\<close>.
  The caller receives \<^verbatim>\<open>str(nonce)\<close>, the decimal rendering of the integer returned here.
\<close>

record nonce_manager =
  last_nonce :: int

definition nonce_manager_init :: nonce_manager where
  "nonce_manager_init = \<lparr>last_nonce = 0\<rparr>"

definition get_nonce :: "int \<Rightarrow> nonce_manager \<Rightarrow> int \<times> nonce_manager" where
  "get_nonce clock m =
     (let nonce = clock;
          nonce = (if nonce \<le> last_nonce m then last_nonce m + 1 else nonce)
      in (nonce, m\<lparr>last_nonce := nonce\<rparr>))"

text \<open>Successive calls, one per clock reading; the nonces are returned in call order.\<close>

fun get_nonces :: "int list \<Rightarrow> nonce_manager \<Rightarrow> int list \<times> nonce_manager" where
  "get_nonces [] m = ([], m)"
| "get_nonces (clock # clocks) m =
     (let (n, m') = get_nonce clock m;
          (ns, m'') = get_nonces clocks m'
      in (n # ns, m''))"

section \<open>exchange_api.py: symbol translation\<close>

text \<open>The dictionary \<^verbatim>\<open>kraken_map\<close> of \<^verbatim>\<open>_convert_symbol_to_kraken\<close>.\<close>

definition kraken_map :: "(string \<times> string) list" where
  "kraken_map = [(''BTC'', ''XBT''), (''USDT'', ''USD''), (''USDC'', ''USD'')]"

text \<open>\<^verbatim>\<open>d.get(k, default)\<close>.\<close>

definition dict_get :: "('k \<times> 'v) list \<Rightarrow> 'k \<Rightarrow> 'v \<Rightarrow> 'v" where
  "dict_get d k dflt = (case map_of d k of None \<Rightarrow> dflt | Some v \<Rightarrow> v)"

text \<open>
  \<^verbatim>\<open>base, quote = symbol.split("/")\<close> raises ValueError unless the split has exactly
  two pieces.
\<close>

definition convert_symbol_to_kraken :: "string \<Rightarrow> py_error + string" where
  "convert_symbol_to_kraken symbol =
     (case py_split CHR ''/'' symbol of
        [base, quote] \<Rightarrow>
          Inr (dict_get kraken_map base base @ dict_get kraken_map quote quote)
      | _ \<Rightarrow> Inl ValueError)"

text \<open>
  The key conversion in the loop of \<^verbatim>\<open>get_balance\<close>: a leading \<^verbatim>\<open>Z\<close> is removed,
  otherwise \<^verbatim>\<open>XXBT\<close> becomes \<^verbatim>\<open>BTC\<close>. It is the only mapping from exchange codes back
  to canonical ones in the client.
\<close>

definition balance_currency_key :: "string \<Rightarrow> string" where
  "balance_currency_key currency =
     (if startswith currency ''Z'' then tl currency
      else if currency = ''XXBT'' then ''BTC''
      else currency)"

text \<open>
  The loop of \<^verbatim>\<open>get_balance\<close> over \<^verbatim>\<open>data.items()\<close>: a later item overwrites an
  earlier one with the same converted key.
\<close>

fun balance_items :: "(string \<times> 'v) list \<Rightarrow> (string \<rightharpoonup> 'v) \<Rightarrow> (string \<rightharpoonup> 'v)" where
  "balance_items [] result = result"
| "balance_items ((currency, balance) # items) result =
     balance_items items (result(balance_currency_key currency \<mapsto> balance))"

section \<open>exchange_api.py: requests\<close>

text \<open>
  The body of a response after \<^verbatim>\<open>response.json()\<close>: the \<^verbatim>\<open>error\<close> array (an absent
  array and an empty one are both falsy, so both are \<open>[]\<close>) and the \<^verbatim>\<open>result\<close> object,
  if there is one, as its items.
\<close>

datatype json_body = JsonBody (body_error: "string list") (body_result: "(string \<times> string) list option")

text \<open>\<open>response_json = None\<close>: \<^verbatim>\<open>response.json()\<close> raises.\<close>

record http_response =
  status_code :: nat
  response_json :: "json_body option"

text \<open>What the client puts on the wire; \<open>req_nonce\<close> is \<^verbatim>\<open>data["nonce"]\<close> of a POST.\<close>

record sent_request =
  req_method :: string
  req_endpoint :: string
  req_data :: "(string \<times> string) list"
  req_nonce :: "int option"

text \<open>
  The world outside the client: the wall clock \<^verbatim>\<open>time.time()\<close> in seconds, the
  replies the server will give to the next requests, each with the time its round trip
  takes, and the requests sent so far. Only sleeping and waiting for a reply let time pass.
\<close>

record world =
  now :: real
  replies :: "(real \<times> http_response) list"
  sent :: "sent_request list"

text \<open>The fields of \<^verbatim>\<open>KrakenExchange\<close> that \<^verbatim>\<open>_make_request\<close> reads and writes.\<close>

record kraken_exchange =
  nonce_mgr :: nonce_manager
  last_request_time :: real
  min_request_interval :: real
  lockout_until :: real

definition kraken_exchange_init :: kraken_exchange where
  "kraken_exchange_init =
     \<lparr>nonce_mgr = nonce_manager_init, last_request_time = 0,
      min_request_interval = 1 / 2, lockout_until = 0\<rparr>"

text \<open>\<^verbatim>\<open>await asyncio.sleep(d)\<close>: a delay that is not positive returns at once.\<close>

definition sleep :: "real \<Rightarrow> world \<Rightarrow> world" where
  "sleep d w = w\<lparr>now := now w + max d 0\<rparr>"

text \<open>\<^verbatim>\<open>int(time.time() * 1000)\<close>: \<^verbatim>\<open>int\<close> truncates towards zero.\<close>

definition clock_ms :: "real \<Rightarrow> int" where
  "clock_ms t = (if 0 \<le> t * 1000 then \<lfloor>t * 1000\<rfloor> else \<lceil>t * 1000\<rceil>)"

definition check_lockout :: "kraken_exchange \<Rightarrow> world \<Rightarrow> world" where
  "check_lockout ex w =
     (if lockout_until ex > now w then sleep (lockout_until ex - now w) w else w)"

text \<open>
  \<^verbatim>\<open>str(error_msg)\<close> of the error array: Python's rendering of a list of strings.
  The messages of the exchange are plain ASCII without quotes or backslashes, which
  \<^verbatim>\<open>repr\<close> puts between single quotes unchanged.
\<close>

fun py_str_items :: "string list \<Rightarrow> string" where
  "py_str_items [] = ''''"
| "py_str_items [s] = [CHR 0x27] @ s @ [CHR 0x27]"
| "py_str_items (s # t # ss) = [CHR 0x27] @ s @ [CHR 0x27] @ '', '' @ py_str_items (t # ss)"

definition py_str_list :: "string list \<Rightarrow> string" where
  "py_str_list ss = ''['' @ py_str_items ss @ '']''"

text \<open>The \<^verbatim>\<open>if\<close>/\<^verbatim>\<open>elif\<close> chain over the rendered error: the first match decides.\<close>

datatype error_class = InvalidKey | InvalidNonce | RateLimit | OtherError

definition classify_error :: "string list \<Rightarrow> error_class" where
  "classify_error error_msg =
     (if str_contains ''EAPI:Invalid key'' (py_str_list error_msg) then InvalidKey
      else if str_contains ''EAPI:Invalid nonce'' (py_str_list error_msg) then InvalidNonce
      else if str_contains ''EAPI:Rate limit exceeded'' (py_str_list error_msg) then RateLimit
      else OtherError)"

text \<open>
  The first half of \<^verbatim>\<open>_make_request\<close>, up to the call of \<^verbatim>\<open>session.get\<close> or
  \<^verbatim>\<open>session.post\<close>: wait for the lockout, keep the minimum interval, stamp the request
  time, and for a method other than GET take a nonce from the manager. The signature and
  the headers are functions of the path, the data and the secret and are left out.
\<close>

definition send_request ::
  "string \<Rightarrow> string \<Rightarrow> (string \<times> string) list \<Rightarrow> kraken_exchange \<Rightarrow> world
     \<Rightarrow> kraken_exchange \<times> world" where
  "send_request method endpoint data ex w =
     (let w1 = check_lockout ex w;
          current_time = now w1;
          time_since_last = current_time - last_request_time ex;
          w2 = (if time_since_last < min_request_interval ex
                then sleep (min_request_interval ex - time_since_last) w1 else w1);
          ex1 = ex\<lparr>last_request_time := now w2\<rparr>
      in if method = ''GET''
         then (ex1, w2\<lparr>sent := sent w2 @
                 [\<lparr>req_method = method, req_endpoint = endpoint, req_data = data,
                   req_nonce = None\<rparr>]\<rparr>)
         else (let (nonce, m) = get_nonce (clock_ms (now w2)) (nonce_mgr ex1)
               in (ex1\<lparr>nonce_mgr := m\<rparr>,
                   w2\<lparr>sent := sent w2 @
                     [\<lparr>req_method = method, req_endpoint = endpoint, req_data = data,
                       req_nonce = Some nonce\<rparr>]\<rparr>)))"

text \<open>
  \<^verbatim>\<open>_make_request\<close>. No reply left in the world is a connection failure of
  \<^verbatim>\<open>requests\<close>. The recursion is the retry after an invalid nonce; it is bounded by
  \<open>retry_count\<close>.
\<close>

function make_request ::
  "string \<Rightarrow> string \<Rightarrow> (string \<times> string) list \<Rightarrow> nat \<Rightarrow> kraken_exchange \<Rightarrow> world
     \<Rightarrow> (py_error + (string \<times> string) list) \<times> kraken_exchange \<times> world" where
  "make_request method endpoint data retry_count ex w =
     (case send_request method endpoint data ex w of (ex1, w1) \<Rightarrow>
        (case replies w1 of
           [] \<Rightarrow> (Inl ConnectionError, ex1, w1)
         | (latency, response) # rest \<Rightarrow>
             (let w2 = w1\<lparr>now := now w1 + latency, replies := rest\<rparr>
              in if status_code response \<noteq> 200
                 then (Inl (HttpStatusError (status_code response)), ex1, w2)
                 else (case response_json response of
                         None \<Rightarrow> (Inl JsonParseError, ex1, w2)
                       | Some result \<Rightarrow>
                           if body_error result \<noteq> [] then
                             (let error_msg = body_error result
                              in case classify_error error_msg of
                                   InvalidKey \<Rightarrow>
                                     (Inl (KrakenApiError error_msg),
                                      ex1\<lparr>lockout_until := now w2 + 900\<rparr>, w2)
                                 | InvalidNonce \<Rightarrow>
                                     if retry_count < 3
                                     then make_request method endpoint data (retry_count + 1)
                                            ex1 (sleep (1 / 10) w2)
                                     else (Inl (KrakenApiError error_msg), ex1, w2)
                                 | RateLimit \<Rightarrow>
                                     (Inl (KrakenApiError error_msg),
                                      ex1\<lparr>lockout_until := now w2 + 300\<rparr>, w2)
                                 | OtherError \<Rightarrow>
                                     (Inl (KrakenApiError error_msg), ex1, w2))
                           else (Inr (case body_result result of None \<Rightarrow> [] | Some r \<Rightarrow> r),
                                 ex1, w2)))))"
  by pat_completeness auto
termination
  by (relation "measure (\<lambda>(method, endpoint, data, retry_count, ex, w). 3 - retry_count)") auto

declare make_request.simps [simp del]

text \<open>A reply that \<^verbatim>\<open>_make_request\<close> handles as an error of the exchange of class
  \<open>c\<close>: status 200, a body that parses, a non-empty error array of that class.\<close>

definition api_error_reply :: "error_class \<Rightarrow> real \<times> http_response \<Rightarrow> bool" where
  "api_error_reply c r =
     (status_code (snd r) = 200 \<and>
      (case response_json (snd r) of
         None \<Rightarrow> False
       | Some body \<Rightarrow> body_error body \<noteq> [] \<and> classify_error (body_error body) = c))"

section \<open>strategy.py: float columns\<close>

text \<open>
  The indicator columns are float64 series. A finite float is modelled by the real it
  stands for (rounding is not modelled); the special values of IEEE 754 that the
  arithmetic of the strategy can produce are explicit, since pandas and numpy do not
  raise on a division by zero: \<open>x / 0\<close> is infinite for \<open>x \<noteq> 0\<close> and NaN for \<open>x = 0\<close>.
  A zero is taken as positive zero.
\<close>

datatype fl = Fin real | PInf | NInf | NaN

fun fl_neg :: "fl \<Rightarrow> fl" where
  "fl_neg (Fin a) = Fin (- a)"
| "fl_neg PInf = NInf"
| "fl_neg NInf = PInf"
| "fl_neg NaN = NaN"

fun fl_add :: "fl \<Rightarrow> fl \<Rightarrow> fl" where
  "fl_add (Fin a) (Fin b) = Fin (a + b)"
| "fl_add NaN y = NaN"
| "fl_add x NaN = NaN"
| "fl_add PInf NInf = NaN"
| "fl_add NInf PInf = NaN"
| "fl_add PInf y = PInf"
| "fl_add x PInf = PInf"
| "fl_add NInf y = NInf"
| "fl_add x NInf = NInf"

definition fl_sub :: "fl \<Rightarrow> fl \<Rightarrow> fl" where
  "fl_sub x y = fl_add x (fl_neg y)"

fun fl_mul :: "fl \<Rightarrow> fl \<Rightarrow> fl" where
  "fl_mul (Fin a) (Fin b) = Fin (a * b)"
| "fl_mul NaN y = NaN"
| "fl_mul x NaN = NaN"
| "fl_mul (Fin a) PInf = (if a = 0 then NaN else if 0 < a then PInf else NInf)"
| "fl_mul (Fin a) NInf = (if a = 0 then NaN else if 0 < a then NInf else PInf)"
| "fl_mul PInf (Fin b) = (if b = 0 then NaN else if 0 < b then PInf else NInf)"
| "fl_mul NInf (Fin b) = (if b = 0 then NaN else if 0 < b then NInf else PInf)"
| "fl_mul PInf PInf = PInf"
| "fl_mul NInf NInf = PInf"
| "fl_mul PInf NInf = NInf"
| "fl_mul NInf PInf = NInf"

fun fl_div :: "fl \<Rightarrow> fl \<Rightarrow> fl" where
  "fl_div (Fin a) (Fin b) =
     (if b \<noteq> 0 then Fin (a / b)
      else if 0 < a then PInf else if a < 0 then NInf else NaN)"
| "fl_div NaN y = NaN"
| "fl_div x NaN = NaN"
| "fl_div (Fin a) PInf = Fin 0"
| "fl_div (Fin a) NInf = Fin 0"
| "fl_div PInf (Fin b) = (if 0 \<le> b then PInf else NInf)"
| "fl_div NInf (Fin b) = (if 0 \<le> b then NInf else PInf)"
| "fl_div PInf PInf = NaN"
| "fl_div PInf NInf = NaN"
| "fl_div NInf PInf = NaN"
| "fl_div NInf NInf = NaN"

text \<open>\<open>x < y\<close> on floats: false as soon as one side is NaN.\<close>

fun fl_lt :: "fl \<Rightarrow> fl \<Rightarrow> bool" where
  "fl_lt (Fin a) (Fin b) = (a < b)"
| "fl_lt NaN y = False"
| "fl_lt x NaN = False"
| "fl_lt x NInf = False"
| "fl_lt PInf y = False"
| "fl_lt NInf y = True"
| "fl_lt x PInf = True"

definition fl_min :: "fl \<Rightarrow> fl \<Rightarrow> fl" where
  "fl_min x y = (if fl_lt y x then y else x)"

definition fl_max :: "fl \<Rightarrow> fl \<Rightarrow> fl" where
  "fl_max x y = (if fl_lt x y then y else x)"

text \<open>The aggregates of a window without NaN: mean, minimum, maximum.\<close>

definition fl_mean :: "fl list \<Rightarrow> fl" where
  "fl_mean win = fl_div (foldl fl_add (Fin 0) win) (Fin (real (length win)))"

definition fl_minimum :: "fl list \<Rightarrow> fl" where
  "fl_minimum win = (case win of [] \<Rightarrow> NaN | x # xs \<Rightarrow> foldl fl_min x xs)"

definition fl_maximum :: "fl list \<Rightarrow> fl" where
  "fl_maximum win = (case win of [] \<Rightarrow> NaN | x # xs \<Rightarrow> foldl fl_max x xs)"

text \<open>
  \<^verbatim>\<open>series.rolling(window=w).agg()\<close>: \<^verbatim>\<open>min_periods\<close> defaults to the window, so
  the value at a position is NaN unless the window ending there is complete and holds
  no NaN.
\<close>

definition rolling :: "nat \<Rightarrow> (fl list \<Rightarrow> fl) \<Rightarrow> fl list \<Rightarrow> fl list" where
  "rolling window agg xs =
     map (\<lambda>i. if window = 0 \<or> i + 1 < window then NaN
               else (let win = take window (drop (i + 1 - window) xs)
                     in if NaN \<in> set win then NaN else agg win))
         [0..<length xs]"

text \<open>\<^verbatim>\<open>prices.diff()\<close>: NaN first, then the difference to the previous price.\<close>

definition diff :: "real list \<Rightarrow> fl list" where
  "diff prices =
     (case prices of [] \<Rightarrow> []
      | p # ps \<Rightarrow> NaN # map (\<lambda>(a, b). Fin (b - a)) (zip prices ps))"

text \<open>
  The two rolling means of \<^verbatim>\<open>_calculate_rsi\<close>. \<^verbatim>\<open>delta.where(cond, 0)\<close> keeps
  \<open>delta\<close> where the condition holds and puts 0 elsewhere, also where \<open>delta\<close> is NaN.
\<close>

definition rsi_gain :: "real list \<Rightarrow> nat \<Rightarrow> fl list" where
  "rsi_gain prices period =
     (let delta = diff prices
      in rolling period fl_mean (map (\<lambda>d. if fl_lt (Fin 0) d then d else Fin 0) delta))"

definition rsi_loss :: "real list \<Rightarrow> nat \<Rightarrow> fl list" where
  "rsi_loss prices period =
     (let delta = diff prices
      in rolling period fl_mean
           (map (\<lambda>d. fl_neg (if fl_lt d (Fin 0) then d else Fin 0)) delta))"

text \<open>\<^verbatim>\<open>_calculate_rsi\<close>: no denominator is replaced here.\<close>

definition calculate_rsi :: "real list \<Rightarrow> nat \<Rightarrow> fl list" where
  "calculate_rsi prices period =
     (let gain = rsi_gain prices period;
          loss = rsi_loss prices period;
          rs = map (\<lambda>(g, l). fl_div g l) (zip gain loss);
          rsi = map (\<lambda>r. fl_sub (Fin 100) (fl_div (Fin 100) (fl_add (Fin 1) r))) rs
      in rsi)"

text \<open>
  The first half of \<^verbatim>\<open>_calculate_stochastic_rsi\<close>: the stochastic of the RSI before
  smoothing. \<^verbatim>\<open>denominator.replace(0, 1)\<close> changes a zero only; a NaN stays.
\<close>

definition stoch_rsi_raw :: "fl list \<Rightarrow> nat \<Rightarrow> fl list" where
  "stoch_rsi_raw rsi stoch_length =
     (let rsi_min = rolling stoch_length fl_minimum rsi;
          rsi_max = rolling stoch_length fl_maximum rsi;
          denominator = map (\<lambda>(hi, lo). fl_sub hi lo) (zip rsi_max rsi_min);
          denominator = map (\<lambda>d. if d = Fin 0 then Fin 1 else d) denominator
      in map (\<lambda>((r, lo), d). fl_div (fl_mul (Fin 100) (fl_sub r lo)) d)
           (zip (zip rsi rsi_min) denominator))"

text \<open>\<^verbatim>\<open>_calculate_stochastic_rsi\<close>: the two simple moving averages \<open>%K\<close> and \<open>%D\<close>.\<close>

definition calculate_stochastic_rsi ::
  "fl list \<Rightarrow> nat \<Rightarrow> nat \<Rightarrow> nat \<Rightarrow> fl list \<times> fl list" where
  "calculate_stochastic_rsi rsi stoch_length k_smooth d_smooth =
     (let stoch_rsi = stoch_rsi_raw rsi stoch_length;
          stoch_k = rolling k_smooth fl_mean stoch_rsi;
          stoch_d = rolling d_smooth fl_mean stoch_k
      in (stoch_k, stoch_d))"


section \<open>strategy.py: indicators and the counter logic\<close>

text \<open>
  \<^verbatim>\<open>series.ewm(span=s, adjust=False).mean()\<close>: the first value seeds the average,
  each later one is \<open>(1 - \<alpha>) * previous + \<alpha> * x\<close> with \<open>\<alpha> = 2 / (s + 1)\<close>.
\<close>

fun ewm_from :: "real \<Rightarrow> real \<Rightarrow> real list \<Rightarrow> real list" where
  "ewm_from \<alpha> prev [] = []"
| "ewm_from \<alpha> prev (x # xs) =
     (let y = (1 - \<alpha>) * prev + \<alpha> * x in y # ewm_from \<alpha> y xs)"

definition ewm_mean :: "nat \<Rightarrow> real list \<Rightarrow> real list" where
  "ewm_mean span' xs =
     (case xs of [] \<Rightarrow> [] | x # rest \<Rightarrow> x # ewm_from (2 / (real span' + 1)) x rest)"

text \<open>One candle of \<^verbatim>\<open>ohlcv_data\<close>, as \<^verbatim>\<open>get_historical_data\<close> builds it.\<close>

record candle =
  timestamp :: int
  open' :: real
  high :: real
  low :: real
  close :: real
  volume :: real

text \<open>The columns \<^verbatim>\<open>_calculate_indicators\<close> adds (the two stochastic crossover
  columns, read by the alerts only, are left out).\<close>

record indicators =
  ema_fast :: real
  ema_slow :: real
  ema_consolidated :: real
  buy :: bool
  sell :: bool
  rsi :: fl
  stoch_rsi_k :: fl
  stoch_rsi_d :: fl

text \<open>The columns \<^verbatim>\<open>_calculate_counter_logic\<close> adds.\<close>

record counter_cols =
  countBuy :: int
  countSell :: int
  buysignal :: bool
  sellsignal :: bool
  bull :: bool
  bear :: bool

record df_row =
  ohlcv :: candle
  ind :: indicators
  cnt :: counter_cols

text \<open>The entry of \<^verbatim>\<open>self.counters\<close> for a symbol.\<close>

record stored_counters =
  stored_countBuy :: int
  stored_countSell :: int

text \<open>\<^verbatim>\<open>BTCCharlieStrategy\<close>: the parameters set in \<^verbatim>\<open>__init__\<close> and the two
  dictionaries; \<open>max_data_points\<close> is the optional attribute of the configuration.\<close>

record strategy =
  fast_ema_period :: nat
  slow_ema_period :: nat
  consolidated_ema_period :: nat
  stoch_k_smooth :: nat
  stoch_d_smooth :: nat
  stoch_rsi_length :: nat
  stoch_length :: nat
  max_data_points :: "int option"
  market_data :: "string \<rightharpoonup> df_row list"
  counters :: "string \<rightharpoonup> stored_counters"

definition strategy_init :: strategy where
  "strategy_init =
     \<lparr>fast_ema_period = 12, slow_ema_period = 25, consolidated_ema_period = 25,
      stoch_k_smooth = 3, stoch_d_smooth = 3, stoch_rsi_length = 14, stoch_length = 14,
      max_data_points = None, market_data = Map.empty, counters = Map.empty\<rparr>"

text \<open>\<^verbatim>\<open>getattr(obj, name, default)\<close> on an optional attribute.\<close>

definition getattr_default :: "'a option \<Rightarrow> 'a \<Rightarrow> 'a" where
  "getattr_default attr dflt = (case attr of None \<Rightarrow> dflt | Some v \<Rightarrow> v)"

text \<open>\<^verbatim>\<open>xs[i:]\<close>: a negative start counts from the end and is clipped at the front.\<close>

definition py_slice_from :: "int \<Rightarrow> 'a list \<Rightarrow> 'a list" where
  "py_slice_from i xs =
     (if 0 \<le> i then drop (nat i) xs else drop (nat (int (length xs) + i)) xs)"

definition calculate_indicators :: "strategy \<Rightarrow> candle list \<Rightarrow> indicators list" where
  "calculate_indicators s df =
     (let closes = map close df;
          fast = ewm_mean (fast_ema_period s) closes;
          slow = ewm_mean (slow_ema_period s) closes;
          consolidated = ewm_mean (consolidated_ema_period s) closes;
          rsi_col = calculate_rsi closes (stoch_rsi_length s);
          (k_col, d_col) = calculate_stochastic_rsi rsi_col (stoch_length s)
                             (stoch_k_smooth s) (stoch_d_smooth s)
      in map (\<lambda>i. \<lparr>ema_fast = fast ! i, ema_slow = slow ! i,
                   ema_consolidated = consolidated ! i,
                   buy = (fast ! i > slow ! i), sell = (fast ! i < slow ! i),
                   rsi = rsi_col ! i, stoch_rsi_k = k_col ! i, stoch_rsi_d = d_col ! i\<rparr>)
           [0..<length df])"

text \<open>
  The body of the loop of \<^verbatim>\<open>_calculate_counter_logic\<close> for one row. \<open>cb\<close> and
  \<open>cs\<close> are the local variables \<^verbatim>\<open>countBuy\<close> and \<^verbatim>\<open>countSell\<close> before the row,
  \<open>prev\<close> holds the \<open>buy\<close> and \<open>sell\<close> of the row before (none at \<open>i = 0\<close>, where
  the signal columns keep their initial False). The result is the row's cells; its
  counters are the values of the local variables after the row.
\<close>

fun counter_step :: "int \<Rightarrow> int \<Rightarrow> (bool \<times> bool) option \<Rightarrow> bool \<times> bool \<Rightarrow> counter_cols" where
  "counter_step cb cs prev (b, s) =
     (let cb1 = (if b then cb + 1 else cb);
          cs1 = (if b then 0 else cs);
          cs2 = (if s then cs1 + 1 else cs1);
          cb2 = (if s then 0 else cb1);
          bsig = (case prev of None \<Rightarrow> False
                  | Some (prev_buy, prev_sell) \<Rightarrow>
                      cb2 < 2 \<and> cb2 > 0 \<and> cs2 < 1 \<and> b \<and> \<not> prev_buy);
          ssig = (case prev of None \<Rightarrow> False
                  | Some (prev_buy, prev_sell) \<Rightarrow>
                      cs2 > 0 \<and> cs2 < 2 \<and> cb2 < 1 \<and> s \<and> \<not> prev_sell)
      in \<lparr>countBuy = cb2, countSell = cs2, buysignal = bsig, sellsignal = ssig,
          bull = (cb2 > 1), bear = (cs2 > 1)\<rparr>)"

declare counter_step.simps [simp del]

text \<open>The loop over the rows, oldest first.\<close>

fun counter_loop :: "int \<Rightarrow> int \<Rightarrow> (bool \<times> bool) option \<Rightarrow> (bool \<times> bool) list \<Rightarrow> counter_cols list" where
  "counter_loop cb cs prev [] = []"
| "counter_loop cb cs prev (f # rest) =
     (let row = counter_step cb cs prev f
      in row # counter_loop (countBuy row) (countSell row) (Some f) rest)"

text \<open>
  \<^verbatim>\<open>_calculate_counter_logic\<close>: the entry of the symbol is created if it is missing,
  the loop starts from \<^verbatim>\<open>countBuy = 0\<close> and \<^verbatim>\<open>countSell = 0\<close>, and the counters of
  the last row are stored if there is a row.
\<close>

definition calculate_counter_logic ::
  "(bool \<times> bool) list \<Rightarrow> string \<Rightarrow> (string \<rightharpoonup> stored_counters)
     \<Rightarrow> counter_cols list \<times> (string \<rightharpoonup> stored_counters)" where
  "calculate_counter_logic flags symbol cnts =
     (let cnts1 = (if symbol \<notin> dom cnts
                   then cnts(symbol \<mapsto> \<lparr>stored_countBuy = 0, stored_countSell = 0\<rparr>)
                   else cnts);
          countBuy0 = 0;
          countSell0 = 0;
          cols = counter_loop countBuy0 countSell0 None flags;
          cnts2 = (if length cols > 0
                   then cnts1(symbol \<mapsto> \<lparr>stored_countBuy = countBuy (last cols),
                                          stored_countSell = countSell (last cols)\<rparr>)
                   else cnts1)
      in (cols, cnts2))"

text \<open>The rows of the frame before it is stored: candles (at most the last
  \<open>max_points\<close>), indicators and counter columns side by side.\<close>

definition trim_candles :: "strategy \<Rightarrow> candle list \<Rightarrow> candle list" where
  "trim_candles s ohlcv_data =
     (let max_points = getattr_default (max_data_points s) 500
      in if int (length ohlcv_data) > max_points
         then py_slice_from (- max_points) ohlcv_data else ohlcv_data)"

definition buy_sell_flags :: "indicators list \<Rightarrow> (bool \<times> bool) list" where
  "buy_sell_flags inds = map (\<lambda>r. (buy r, sell r)) inds"

text \<open>
  \<^verbatim>\<open>update_market_data\<close>. An empty \<^verbatim>\<open>ohlcv_data\<close> makes a frame without a
  \<^verbatim>\<open>timestamp\<close> column and the second statement raises KeyError. Otherwise the last
  200 rows are stored for the symbol.
\<close>

definition update_market_data :: "string \<Rightarrow> candle list \<Rightarrow> strategy \<Rightarrow> py_error + strategy" where
  "update_market_data symbol ohlcv_data s =
     (if ohlcv_data = [] then Inl KeyError
      else (let df = trim_candles s ohlcv_data;
                inds = calculate_indicators s df;
                (cols, cnts) = calculate_counter_logic (buy_sell_flags inds) symbol (counters s);
                rows = map (\<lambda>i. \<lparr>ohlcv = df ! i, ind = inds ! i, cnt = cols ! i\<rparr>)
                         [0..<length df]
            in Inr (s\<lparr>market_data := (market_data s)(symbol \<mapsto> py_slice_from (- 200) rows),
                      counters := cnts\<rparr>)))"

section \<open>bot.py: sizing and executing a signal\<close>

text \<open>
  Python decides at run time what \<^verbatim>\<open>/\<close> and \<^verbatim>\<open>in\<close> mean for the value bound to
  \<^verbatim>\<open>price\<close>. The values that matter here are a finite builtin \<^verbatim>\<open>float\<close>, a
  \<^verbatim>\<open>numpy.float64\<close> (any float, the infinities and NaN included) and a string. The
  price of a signal is a \<^verbatim>\<open>numpy.float64\<close>: \<^verbatim>\<open>generate_signal\<close>, the only place where
  a signal is built, takes it from \<^verbatim>\<open>latest['close']\<close>, an entry of a row of the data
  frame.
\<close>

datatype pyval = PyFloat real | NpFloat64 fl | PyStr string

text \<open>
  \<^verbatim>\<open>x / price\<close> for a float \<open>x\<close>. A builtin float divisor that is zero raises
  ZeroDivisionError. A \<^verbatim>\<open>numpy.float64\<close> divisor never raises: numpy does the
  division, and a zero divisor gives an infinity or NaN (with a warning only). A string
  divisor raises TypeError.
\<close>

fun py_truediv :: "real \<Rightarrow> pyval \<Rightarrow> py_error + fl" where
  "py_truediv x (PyFloat p) = (if p = 0 then Inl ZeroDivisionError else Inr (Fin (x / p)))"
| "py_truediv x (NpFloat64 v) = Inr (fl_div (Fin x) v)"
| "py_truediv x (PyStr s) = Inl TypeError"

text \<open>\<^verbatim>\<open>'abc' in price\<close>: the substring test on a string; a float of either kind is
  not a container and the test raises TypeError.\<close>

fun py_in :: "string \<Rightarrow> pyval \<Rightarrow> py_error + bool" where
  "py_in sub (PyFloat p) = Inl TypeError"
| "py_in sub (NpFloat64 v) = Inl TypeError"
| "py_in sub (PyStr s) = Inr (str_contains sub s)"

text \<open>The attributes of \<^verbatim>\<open>TradingConfig\<close> that sizing and execution read; the two
  order bounds are optional attributes read through \<^verbatim>\<open>getattr\<close>.\<close>

record trading_config =
  max_position_size :: real
  one_position_per_pair :: bool
  order_type :: string
  max_order_size_usd :: "real option"
  min_order_size_usd :: "real option"

datatype signal = BUY | SELL | HOLD

fun signal_value :: "signal \<Rightarrow> string" where
  "signal_value BUY = ''buy''"
| "signal_value SELL = ''sell''"
| "signal_value HOLD = ''hold''"

text \<open>\<^verbatim>\<open>StrategySignal\<close>.\<close>

record strategy_signal =
  sig_symbol :: string
  sig_signal :: signal
  sig_price :: real
  sig_timestamp :: int
  sig_stop_loss :: "real option"
  sig_take_profit :: "real option"
  sig_confidence :: real
  sig_type :: string

text \<open>The arguments of one call of \<^verbatim>\<open>exchange.place_order\<close> and its
  \<^verbatim>\<open>OrderResult\<close>.\<close>

record order_request =
  ord_symbol :: string
  ord_side :: string
  ord_amount :: fl
  ord_type :: string
  ord_stop_loss :: "real option"
  ord_take_profit :: "real option"

record order_result =
  success :: bool
  order_id :: "string option"
  error_message :: "string option"

text \<open>\<^verbatim>\<open>Position\<close> of exchange\_api.py, as \<^verbatim>\<open>get_positions\<close> returns it.\<close>

record position =
  pos_symbol :: string
  pos_side :: string
  pos_size :: real
  pos_entry_price :: real
  pos_unrealized_pnl :: real

text \<open>The entry of \<^verbatim>\<open>active_positions\<close> for a symbol.\<close>

record tracked_position =
  tr_order_id :: "string option"
  tr_signal :: strategy_signal
  tr_size :: fl

text \<open>
  The exchange as the bot sees it: what \<^verbatim>\<open>get_positions\<close> returns or raises, and the
  result of each order (\<^verbatim>\<open>place_order\<close> catches every exception itself).
\<close>

record exchange_view =
  positions_reply :: "py_error + position list"
  order_reply :: "order_request \<Rightarrow> order_result"

text \<open>
  The state of \<^verbatim>\<open>TradingBot\<close>. \<open>orders_placed\<close> is not a field of the class: it
  records, in order, every call of \<^verbatim>\<open>exchange.place_order\<close> the bot has made.
\<close>

record trading_bot =
  active_positions :: "string \<rightharpoonup> tracked_position"
  is_running :: bool
  emergency_stop :: bool
  trades_executed :: int
  account_balance :: real
  initial_balance :: real
  last_heartbeat :: real
  dead_mans_switch_enabled :: bool
  dead_mans_switch_timeout :: real
  orders_placed :: "order_request list"

text \<open>\<^verbatim>\<open>_calculate_position_size\<close>, with the run-time type of \<^verbatim>\<open>price\<close> explicit.
  \<^verbatim>\<open>max(a, b)\<close> is \<open>b\<close> if \<open>b > a\<close> and \<open>a\<close> otherwise.\<close>

definition calculate_position_size :: "trading_config \<Rightarrow> trading_bot \<Rightarrow> pyval \<Rightarrow> py_error + fl" where
  "calculate_position_size cfg self price =
     (if account_balance self \<le> 0 then Inr (Fin 0)
      else (let max_position_value = account_balance self * max_position_size cfg;
                max_order_usd = getattr_default (max_order_size_usd cfg) 10000;
                max_position_value = min max_position_value max_order_usd
            in case py_truediv max_position_value price of
                 Inl e \<Rightarrow> Inl e
               | Inr position_size \<Rightarrow>
                   (case py_in ''BTC'' price of
                      Inl e \<Rightarrow> Inl e
                    | Inr True \<Rightarrow> Inr (fl_max position_size (Fin (1 / 10000)))
                    | Inr False \<Rightarrow>
                        (case py_in ''ETH'' price of
                           Inl e \<Rightarrow> Inl e
                         | Inr True \<Rightarrow> Inr (fl_max position_size (Fin (5 / 1000)))
                         | Inr False \<Rightarrow> Inr position_size))))"

text \<open>
  \<^verbatim>\<open>_execute_signal\<close>. \<^verbatim>\<open>signal.price\<close> is the \<^verbatim>\<open>numpy.float64\<close> that
  \<^verbatim>\<open>generate_signal\<close> read from the close column. An exception leaves the bot as it
  was (nothing has been written before the sizing) and goes to the caller, which logs it.
  The optional logging of the trade to the database is left out.
\<close>

definition execute_signal ::
  "trading_config \<Rightarrow> exchange_view \<Rightarrow> strategy_signal \<Rightarrow> trading_bot \<Rightarrow> py_error + trading_bot" where
  "execute_signal cfg xv sg self =
     (if one_position_per_pair cfg \<and> sig_symbol sg \<in> dom (active_positions self)
      then Inr self
      else (case calculate_position_size cfg self (NpFloat64 (Fin (sig_price sg))) of
              Inl e \<Rightarrow> Inl e
            | Inr position_size \<Rightarrow>
                (let min_order_usd = getattr_default (min_order_size_usd cfg) 10
                 in if fl_lt (fl_mul position_size (Fin (sig_price sg))) (Fin min_order_usd)
                    then Inr self
                    else (let req = \<lparr>ord_symbol = sig_symbol sg,
                                     ord_side = signal_value (sig_signal sg),
                                     ord_amount = position_size,
                                     ord_type = order_type cfg,
                                     ord_stop_loss = sig_stop_loss sg,
                                     ord_take_profit = sig_take_profit sg\<rparr>;
                              order_res = order_reply xv req;
                              self1 = self\<lparr>orders_placed := orders_placed self @ [req]\<rparr>
                          in if success order_res
                             then Inr (self1\<lparr>active_positions :=
                                              (active_positions self1)(sig_symbol sg \<mapsto>
                                                \<lparr>tr_order_id = order_id order_res,
                                                 tr_signal = sg,
                                                 tr_size = position_size\<rparr>),
                                            trades_executed := trades_executed self1 + 1\<rparr>)
                             else Inr self1))))"

section \<open>bot.py: the dead man's switch\<close>

text \<open>\<^verbatim>\<open>_emergency_close_all_positions\<close>: one market order per position the exchange
  reports, on the opposite side; an exception of \<^verbatim>\<open>get_positions\<close> is logged and no
  order is placed. The result of an order is only logged.\<close>

definition close_order :: "position \<Rightarrow> order_request" where
  "close_order p =
     \<lparr>ord_symbol = pos_symbol p,
      ord_side = (if pos_side p = ''long'' then ''sell'' else ''buy''),
      ord_amount = Fin (pos_size p),
      ord_type = ''market'',
      ord_stop_loss = None,
      ord_take_profit = None\<rparr>"

definition emergency_close_all_positions :: "exchange_view \<Rightarrow> trading_bot \<Rightarrow> trading_bot" where
  "emergency_close_all_positions xv self =
     (case positions_reply xv of
        Inl e \<Rightarrow> self
      | Inr positions \<Rightarrow> self\<lparr>orders_placed := orders_placed self @ map close_order positions\<rparr>)"

text \<open>\<^verbatim>\<open>update_heartbeat\<close> and \<^verbatim>\<open>_check_dead_mans_switch\<close>; \<open>t\<close> is the value of
  \<^verbatim>\<open>time.time()\<close> that the call reads.\<close>

definition update_heartbeat :: "real \<Rightarrow> trading_bot \<Rightarrow> trading_bot" where
  "update_heartbeat t self = self\<lparr>last_heartbeat := t\<rparr>"

definition check_dead_mans_switch :: "real \<Rightarrow> exchange_view \<Rightarrow> trading_bot \<Rightarrow> trading_bot" where
  "check_dead_mans_switch t xv self =
     (if \<not> dead_mans_switch_enabled self then self
      else (let time_since_heartbeat = t - last_heartbeat self
            in if time_since_heartbeat > dead_mans_switch_timeout self
               then emergency_close_all_positions xv (self\<lparr>emergency_stop := True\<rparr>)
               else self))"

text \<open>
  The head of one pass of the loop in \<^verbatim>\<open>_main_loop\<close>: the loop condition, the refresh
  of the heartbeat and the check of the switch. \<open>t1\<close> is the clock read by
  \<^verbatim>\<open>update_heartbeat\<close>, \<open>t2\<close> the clock read by the check that follows it. None: the
  loop has ended.
\<close>

definition main_loop_head :: "real \<Rightarrow> real \<Rightarrow> exchange_view \<Rightarrow> trading_bot \<Rightarrow> trading_bot option" where
  "main_loop_head t1 t2 xv self =
     (if is_running self \<and> \<not> emergency_stop self
      then Some (check_dead_mans_switch t2 xv (update_heartbeat t1 self))
      else None)"

section \<open>Example inputs\<close>

text \<open>\<^verbatim>\<open>TradingConfig()\<close> with its defaults; the optional attributes are not set.\<close>

definition default_config :: trading_config where
  "default_config =
     \<lparr>max_position_size = 2 / 100, one_position_per_pair = True, order_type = ''market'',
      max_order_size_usd = None, min_order_size_usd = None\<rparr>"

text \<open>A bot that has just started with the balance \<open>b\<close>, and the same bot with the
  dead man's switch enabled.\<close>

definition started_bot :: "real \<Rightarrow> trading_bot" where
  "started_bot b =
     \<lparr>active_positions = Map.empty, is_running = True, emergency_stop = False,
      trades_executed = 0, account_balance = b, initial_balance = b, last_heartbeat = 0,
      dead_mans_switch_enabled = False, dead_mans_switch_timeout = 3600,
      orders_placed = []\<rparr>"

definition guarded_bot :: "real \<Rightarrow> trading_bot" where
  "guarded_bot b = (started_bot b)\<lparr>dead_mans_switch_enabled := True\<rparr>"

text \<open>An exchange that fills every order and reports the given open positions.\<close>

definition filling_exchange :: "position list \<Rightarrow> exchange_view" where
  "filling_exchange ps =
     \<lparr>positions_reply = Inr ps,
      order_reply = (\<lambda>r. \<lparr>success = True, order_id = Some ''TX1'', error_message = None\<rparr>)\<rparr>"

definition long_position :: position where
  "long_position =
     \<lparr>pos_symbol = ''XBTUSD'', pos_side = ''long'', pos_size = 1 / 2,
      pos_entry_price = 50000, pos_unrealized_pnl = 0\<rparr>"

text \<open>A buy signal as \<^verbatim>\<open>generate_signal\<close> builds it, for a symbol at a price.\<close>

definition buy_signal_at :: "string \<Rightarrow> real \<Rightarrow> strategy_signal" where
  "buy_signal_at name p =
     \<lparr>sig_symbol = name, sig_signal = BUY, sig_price = p, sig_timestamp = 0,
      sig_stop_loss = Some (p * (1 - 2 / 100)), sig_take_profit = Some (p * (1 + 4 / 100)),
      sig_confidence = 9 / 10, sig_type = ''bull''\<rparr>"

text \<open>A candle at time \<open>t\<close> whose prices all equal \<open>c\<close>, and three short windows of
  closes: a rise; a dip followed by a rise; a rise, a fall back to where the two averages
  meet, and a second rise.\<close>

definition candle_at :: "int \<Rightarrow> real \<Rightarrow> candle" where
  "candle_at t c = \<lparr>timestamp = t, open' = c, high = c, low = c, close = c, volume = 1\<rparr>"

definition window_rise :: "candle list" where
  "window_rise = [candle_at 0 100, candle_at 1 113]"

definition window_dip :: "candle list" where
  "window_dip = [candle_at 0 100, candle_at 1 90, candle_at 2 200, candle_at 3 300]"

definition window_touch :: "candle list" where
  "window_touch =
     [candle_at 0 100, candle_at 1 113, candle_at 2 90, candle_at 3 200, candle_at 4 300]"

text \<open>The state of a fresh strategy after one update with the rising window, and after
  a second update with the same window.\<close>

definition after_first_update :: strategy where
  "after_first_update = projr (update_market_data ''BTC/USD'' window_rise strategy_init)"

definition after_second_update :: strategy where
  "after_second_update = projr (update_market_data ''BTC/USD'' window_rise after_first_update)"

text \<open>A response with the given status whose body carries the given error array; a
  world at time \<open>t\<close> with the given replies to come and nothing sent yet; and a world
  in which the exchange answers four times with an invalid-nonce error.\<close>

definition error_reply :: "nat \<Rightarrow> string list \<Rightarrow> http_response" where
  "error_reply status errs =
     \<lparr>status_code = status, response_json = Some (JsonBody errs None)\<rparr>"

definition world_at :: "real \<Rightarrow> (real \<times> http_response) list \<Rightarrow> world" where
  "world_at t rs = \<lparr>now = t, replies = rs, sent = []\<rparr>"

definition nonce_storm :: world where
  "nonce_storm =
     world_at 1000
       [(1 / 4, error_reply 200 [''EAPI:Invalid nonce'']),
        (1 / 4, error_reply 200 [''EAPI:Invalid nonce'']),
        (1 / 4, error_reply 200 [''EAPI:Invalid nonce'']),
        (1 / 4, error_reply 200 [''EAPI:Invalid nonce''])]"



section \<open>Properties of the nonce manager\<close>

lemma get_nonces_sorted_aux:
  "sorted_wrt (<) (last_nonce m # fst (get_nonces clocks m))"
proof (induction clocks arbitrary: m)
  case Nil
  show ?case by simp
next
  case (Cons c cs)
  let ?m' = "snd (get_nonce c m)"
  have step: "last_nonce m < last_nonce ?m'"
    by (simp add: get_nonce_def Let_def)
  have eq: "fst (get_nonce c m) = last_nonce ?m'"
    by (simp add: get_nonce_def Let_def)
  have ih: "sorted_wrt (<) (last_nonce ?m' # fst (get_nonces cs ?m'))"
    by (rule Cons.IH)
  have shape: "fst (get_nonces (c # cs) m) = last_nonce ?m' # fst (get_nonces cs ?m')"
    using eq by (simp add: split_beta Let_def)
  from ih step show ?case
    unfolding shape by (auto simp: less_trans)
qed

text \<open>
  C5. Whatever the clock readings are, the nonces issued by successive calls of
  \<^verbatim>\<open>get_nonce\<close> are strictly increasing, and all of them are greater than the nonce
  issued last before these calls. A single call returns the larger of the clock reading
  and the last nonce plus one, so a clock that has not advanced still advances the nonce
  by one, and the manager remembers the nonce it returned.
\<close>

theorem nonce_strictly_increasing:
  "sorted_wrt (<) (last_nonce m # fst (get_nonces clocks m))
   \<and> fst (get_nonce clock m) = max clock (last_nonce m + 1)
   \<and> last_nonce (snd (get_nonce clock m)) = fst (get_nonce clock m)"
proof -
  have "fst (get_nonce clock m) = max clock (last_nonce m + 1)"
    by (simp add: get_nonce_def Let_def max_def)
  moreover have "last_nonce (snd (get_nonce clock m)) = fst (get_nonce clock m)"
    by (simp add: get_nonce_def Let_def)
  ultimately show ?thesis
    using get_nonces_sorted_aux by blast
qed

section \<open>Properties of the symbol translation\<close>

lemma py_split_nonempty: "py_split sep s \<noteq> []"
  by (induction s) (auto split: list.splits)

lemma py_split_one: "py_split sep s = [b] \<Longrightarrow> s = b \<and> sep \<notin> set b"
proof (induction s arbitrary: b)
  case Nil
  then show ?case by auto
next
  case (Cons d ds)
  then show ?case
    by (auto split: if_splits list.splits simp: py_split_nonempty)
qed

lemma py_split_two:
  "py_split sep s = [a, b] \<Longrightarrow> s = a @ sep # b \<and> sep \<notin> set a \<and> sep \<notin> set b"
proof (induction s arbitrary: a)
  case Nil
  then show ?case by simp
next
  case (Cons c cs)
  show ?case
  proof (cases "c = sep")
    case True
    with Cons.prems have a: "a = []" and r: "py_split sep cs = [b]"
      by auto
    from py_split_one[OF r] a True show ?thesis
      by simp
  next
    case False
    with Cons.prems obtain w where w: "py_split sep cs = [w, b]" "a = c # w"
      by (auto split: list.splits)
    from Cons.IH[OF w(1)] w(2) False show ?thesis
      by auto
  qed
qed

lemma dict_get_kraken_no_slash:
  "CHR ''/'' \<notin> set x \<Longrightarrow> CHR ''/'' \<notin> set (dict_get kraken_map x x)"
  by (auto simp: dict_get_def kraken_map_def)

lemma balance_key_no_slash:
  "CHR ''/'' \<notin> set x \<Longrightarrow> CHR ''/'' \<notin> set (balance_currency_key x)"
  by (cases x) (auto simp: balance_currency_key_def)

lemma convert_drops_slash:
  assumes "convert_symbol_to_kraken s = Inr code"
  shows "CHR ''/'' \<in> set s \<and> CHR ''/'' \<notin> set code"
proof -
  from assms obtain a b where ab: "py_split CHR ''/'' s = [a, b]"
    and code: "code = dict_get kraken_map a a @ dict_get kraken_map b b"
    by (auto simp: convert_symbol_to_kraken_def split: list.splits)
  from py_split_two[OF ab] show ?thesis
    using code dict_get_kraken_no_slash by auto
qed

lemma convert_table_entries:
  assumes "(b, b') \<in> set kraken_map" and "(q, q') \<in> set kraken_map"
  shows "convert_symbol_to_kraken (b @ ''/'' @ q) = Inr (b' @ q')
         \<and> balance_currency_key (b' @ q') = b' @ q'"
  using assms
  by (auto simp: kraken_map_def convert_symbol_to_kraken_def dict_get_def
                 balance_currency_key_def)

text \<open>
  C3, as the claim states it, fails: the canonical pair \<^verbatim>\<open>BTC/USDT\<close> becomes the pair
  code \<^verbatim>\<open>XBTUSD\<close>, the key conversion of \<^verbatim>\<open>get_balance\<close> leaves that code as it
  is, and \<^verbatim>\<open>BTC/USDC\<close> gives the same code, so no mapping could recover the pair.
\<close>

theorem symbol_round_trip_counterexample:
  "convert_symbol_to_kraken ''BTC/USDT'' = Inr ''XBTUSD''
   \<and> balance_currency_key ''XBTUSD'' = ''XBTUSD''
   \<and> balance_currency_key ''XBTUSD'' \<noteq> ''BTC/USDT''
   \<and> convert_symbol_to_kraken ''BTC/USDC'' = Inr ''XBTUSD''"
  by (simp add: convert_symbol_to_kraken_def kraken_map_def dict_get_def
                balance_currency_key_def)

text \<open>
  C3, amended. For every two entries of the alias table, taken as base and quote of a
  canonical pair, the conversion gives the two exchange codes written one after the
  other, and the key conversion of \<^verbatim>\<open>get_balance\<close> leaves this pair code unchanged.
  For every symbol that the conversion accepts, the key conversion applied to the pair
  code differs from the symbol: the canonical pair is never recovered.
\<close>

theorem symbol_alias_one_way:
  "(convert_symbol_to_kraken s = Inr code \<longrightarrow> balance_currency_key code \<noteq> s)
   \<and> ((b, b') \<in> set kraken_map \<and> (q, q') \<in> set kraken_map \<longrightarrow>
        convert_symbol_to_kraken (b @ ''/'' @ q) = Inr (b' @ q')
        \<and> balance_currency_key (b' @ q') = b' @ q')"
proof -
  have "balance_currency_key code \<noteq> s" if "convert_symbol_to_kraken s = Inr code"
    using convert_drops_slash[OF that] balance_key_no_slash[of code] by auto
  then show ?thesis
    using convert_table_entries by blast
qed

theorem symbol_alias_one_way_witness:
  "convert_symbol_to_kraken ''ETH/USDT'' = Inr ''ETHUSD''
   \<and> balance_currency_key ''ETHUSD'' \<noteq> ''ETH/USDT''
   \<and> (''BTC'', ''XBT'') \<in> set kraken_map \<and> (''USDC'', ''USD'') \<in> set kraken_map
   \<and> convert_symbol_to_kraken (''BTC'' @ ''/'' @ ''USDC'') = Inr (''XBT'' @ ''USD'')
   \<and> balance_currency_key (''XBT'' @ ''USD'') = ''XBT'' @ ''USD''"
proof -
  have c: "convert_symbol_to_kraken ''ETH/USDT'' = Inr ''ETHUSD''"
    by (simp add: convert_symbol_to_kraken_def kraken_map_def dict_get_def)
  have m: "(''BTC'', ''XBT'') \<in> set kraken_map \<and> (''USDC'', ''USD'') \<in> set kraken_map"
    by (simp add: kraken_map_def)
  from symbol_alias_one_way[of "''ETH/USDT''" "''ETHUSD''" "''BTC''" "''XBT''" "''USDC''" "''USD''"]
    c m show ?thesis
    by blast
qed

section \<open>Properties of the position sizing\<close>

lemma position_size_raises:
  assumes "0 < account_balance self"
  shows "calculate_position_size cfg self price =
           Inl (if price = PyFloat 0 then ZeroDivisionError else TypeError)"
  using assms by (cases price) (simp_all add: calculate_position_size_def Let_def)

lemma position_size_zero_iff:
  "calculate_position_size cfg self price = Inr (Fin 0) \<longleftrightarrow> account_balance self \<le> 0"
  using position_size_raises[of self cfg price]
  by (cases "account_balance self \<le> 0") (simp_all add: calculate_position_size_def)

text \<open>
  C2, as the claim states it, fails for the price 0.0 given as a builtin float: with the
  balance 250 the division \<^verbatim>\<open>max_position_value / price\<close> raises ZeroDivisionError, and
  the membership test, which would raise TypeError, is not reached.
\<close>

theorem position_size_zero_price_counterexample:
  "0 < account_balance (started_bot 250)
   \<and> calculate_position_size default_config (started_bot 250) (PyFloat 0)
        = Inl ZeroDivisionError
   \<and> calculate_position_size default_config (started_bot 250) (PyFloat 0) \<noteq> Inl TypeError"
  by (simp add: calculate_position_size_def started_bot_def Let_def)

text \<open>
  C2, amended. With a positive balance \<^verbatim>\<open>_calculate_position_size\<close> returns no size
  for any price: it raises TypeError, at the membership test for a float and at the
  division for a string; the one exception is the builtin float 0.0, where the division
  raises ZeroDivisionError first. A \<^verbatim>\<open>numpy.float64\<close> zero, which is what a signal
  carries, divides to an infinity or NaN and reaches the TypeError of the membership test.
  So \<^verbatim>\<open>_execute_signal\<close> with a positive balance either skips the signal because a
  position exists, leaving the bot unchanged, or ends with TypeError, whatever the price of
  the signal; in both cases no order is placed. The function returns 0.0 exactly when the
  balance is zero or negative.
\<close>

theorem position_size_never_computed:
  "(0 < account_balance self \<longrightarrow>
      calculate_position_size cfg self price =
        Inl (if price = PyFloat 0 then ZeroDivisionError else TypeError)
      \<and> execute_signal cfg xv sg self =
          (if one_position_per_pair cfg \<and> sig_symbol sg \<in> dom (active_positions self)
           then Inr self
           else Inl TypeError))
   \<and> (calculate_position_size cfg self price = Inr (Fin 0) \<longleftrightarrow> account_balance self \<le> 0)"
proof -
  have "execute_signal cfg xv sg self =
          (if one_position_per_pair cfg \<and> sig_symbol sg \<in> dom (active_positions self)
           then Inr self
           else Inl TypeError)"
    if "0 < account_balance self"
    using position_size_raises[OF that, of cfg "NpFloat64 (Fin (sig_price sg))"]
    by (simp add: execute_signal_def)
  then show ?thesis
    using position_size_raises position_size_zero_iff by blast
qed

theorem position_size_never_computed_witness:
  "0 < account_balance (started_bot 250)
   \<and> calculate_position_size default_config (started_bot 250) (NpFloat64 (Fin 0))
        = Inl TypeError
   \<and> execute_signal default_config (filling_exchange []) (buy_signal_at ''ETH/USD'' 0)
        (started_bot 250) = Inl TypeError
   \<and> calculate_position_size default_config (started_bot 250) (NpFloat64 (Fin 0))
        \<noteq> Inr (Fin 0)"
  using position_size_never_computed[of "started_bot 250" default_config "NpFloat64 (Fin 0)"
          "filling_exchange []" "buy_signal_at ''ETH/USD'' 0"]
  by (simp add: started_bot_def buy_signal_at_def default_config_def)

text \<open>
  C9 at the input of the specification: balance 1000, position fraction 0.02, price
  50000, minimum order size 10. The size min(1000 * 0.02, 10000) / 50000 is divided out
  and then lost: the test \<^verbatim>\<open>'BTC' in price\<close> raises TypeError, so the comparison with
  the minimum order size is never reached and the attempt ends with the exception.
\<close>

theorem position_size_spec_example:
  "calculate_position_size default_config (started_bot 1000) (PyFloat 50000) = Inl TypeError
   \<and> execute_signal default_config (filling_exchange []) (buy_signal_at ''BTC/USD'' 50000)
        (started_bot 1000) = Inl TypeError"
  by (simp add: calculate_position_size_def execute_signal_def started_bot_def
                buy_signal_at_def default_config_def getattr_default_def Let_def)

section \<open>Properties of the dead man's switch\<close>

lemma switch_fires_when_stale:
  assumes "dead_mans_switch_enabled self"
    and "t - last_heartbeat self > dead_mans_switch_timeout self"
    and "positions_reply xv = Inr ps"
  shows "emergency_stop (check_dead_mans_switch t xv self)
         \<and> orders_placed (check_dead_mans_switch t xv self)
             = orders_placed self @ map close_order ps"
  using assms
  by (simp add: check_dead_mans_switch_def emergency_close_all_positions_def Let_def)

lemma loop_head_never_fires:
  assumes "is_running self" and "\<not> emergency_stop self"
    and "t2 - t1 \<le> dead_mans_switch_timeout self"
  shows "main_loop_head t1 t2 xv self = Some (self\<lparr>last_heartbeat := t1\<rparr>)"
  using assms
  by (simp add: main_loop_head_def check_dead_mans_switch_def update_heartbeat_def Let_def)

text \<open>
  C10 at a concrete pass of the loop: the switch is enabled with the timeout 3600, the
  heartbeat was last refreshed at time 0, the exchange reports an open long position, and
  the pass starts at time 10000. The pass refreshes the heartbeat before it checks the
  switch, so the check sees no delay: the emergency stop is not set and no order is
  placed. The check alone, on the stale heartbeat, would have set the stop and sold the
  position.
\<close>

theorem dead_mans_switch_stale_pass:
  "main_loop_head 10000 10000 (filling_exchange [long_position]) (guarded_bot 1000)
     = Some ((guarded_bot 1000)\<lparr>last_heartbeat := 10000\<rparr>)
   \<and> \<not> emergency_stop ((guarded_bot 1000)\<lparr>last_heartbeat := 10000\<rparr>)
   \<and> orders_placed ((guarded_bot 1000)\<lparr>last_heartbeat := 10000\<rparr>) = []
   \<and> emergency_stop
        (check_dead_mans_switch 10000 (filling_exchange [long_position]) (guarded_bot 1000))
   \<and> orders_placed
        (check_dead_mans_switch 10000 (filling_exchange [long_position]) (guarded_bot 1000))
       = [close_order long_position]"
  by (simp add: main_loop_head_def check_dead_mans_switch_def update_heartbeat_def
                emergency_close_all_positions_def guarded_bot_def started_bot_def
                filling_exchange_def Let_def)

section \<open>Properties of the counter logic\<close>

lemma length_counter_loop [simp]: "length (counter_loop cb cs prev flags) = length flags"
  by (induction flags arbitrary: cb cs prev) (auto simp: Let_def)

lemma counter_loop_nth_0:
  "flags \<noteq> [] \<Longrightarrow> counter_loop cb cs prev flags ! 0 = counter_step cb cs prev (flags ! 0)"
  by (cases flags) (auto simp: Let_def)

text \<open>Each row is the loop body applied to the counters of the row before.\<close>

lemma counter_loop_nth_Suc:
  "Suc i < length flags \<Longrightarrow>
   counter_loop cb cs prev flags ! Suc i =
     counter_step (countBuy (counter_loop cb cs prev flags ! i))
                  (countSell (counter_loop cb cs prev flags ! i))
                  (Some (flags ! i)) (flags ! Suc i)"
proof (induction flags arbitrary: cb cs prev i)
  case Nil
  then show ?case by simp
next
  case (Cons f rest)
  show ?case
  proof (cases i)
    case 0
    with Cons.prems show ?thesis
      by (cases rest) (auto simp: Let_def)
  next
    case (Suc k)
    with Cons.prems have "Suc k < length rest"
      by simp
    from Cons.IH[OF this] Suc show ?thesis
      by (simp add: Let_def)
  qed
qed

lemma counter_step_inv:
  assumes "0 \<le> cb" and "0 \<le> cs" and "cb = 0 \<or> cs = 0"
  shows "0 \<le> countBuy (counter_step cb cs prev f) \<and> 0 \<le> countSell (counter_step cb cs prev f)
     \<and> (countBuy (counter_step cb cs prev f) = 0 \<or> countSell (counter_step cb cs prev f) = 0)
     \<and> (countBuy (counter_step cb cs prev f) = 0 \<and> countSell (counter_step cb cs prev f) = 0
          \<longleftrightarrow> cb = 0 \<and> cs = 0 \<and> \<not> fst f \<and> \<not> snd f)"
  using assms by (cases f) (auto simp: counter_step.simps Let_def)

lemma counter_loop_inv:
  assumes "0 \<le> cb" and "0 \<le> cs" and "cb = 0 \<or> cs = 0" and "i < length flags"
  shows "0 \<le> countBuy (counter_loop cb cs prev flags ! i)
     \<and> 0 \<le> countSell (counter_loop cb cs prev flags ! i)
     \<and> (countBuy (counter_loop cb cs prev flags ! i) = 0
          \<or> countSell (counter_loop cb cs prev flags ! i) = 0)
     \<and> (countBuy (counter_loop cb cs prev flags ! i) = 0
          \<and> countSell (counter_loop cb cs prev flags ! i) = 0
          \<longleftrightarrow> cb = 0 \<and> cs = 0 \<and> (\<forall>j\<le>i. \<not> fst (flags ! j) \<and> \<not> snd (flags ! j)))"
  using assms(4)
proof (induction i)
  case 0
  then have ne: "flags \<noteq> []"
    by auto
  show ?case
    using counter_step_inv[OF assms(1-3), of prev "flags ! 0"]
    by (simp add: counter_loop_nth_0[OF ne])
next
  case (Suc i)
  then have lt: "i < length flags"
    by simp
  note ih = Suc.IH[OF lt]
  let ?r = "counter_loop cb cs prev flags ! i"
  have st: "0 \<le> countBuy ?r" "0 \<le> countSell ?r" "countBuy ?r = 0 \<or> countSell ?r = 0"
    using ih by auto
  have all: "(\<forall>j\<le>Suc i. \<not> fst (flags ! j) \<and> \<not> snd (flags ! j)) \<longleftrightarrow>
      (\<forall>j\<le>i. \<not> fst (flags ! j) \<and> \<not> snd (flags ! j))
      \<and> \<not> fst (flags ! Suc i) \<and> \<not> snd (flags ! Suc i)"
    using le_Suc_eq by auto
  show ?case
    unfolding counter_loop_nth_Suc[OF Suc.prems] all
    using counter_step_inv[OF st, of "Some (flags ! i)" "flags ! Suc i"] ih
    by blast
qed

lemma fst_calculate_counter_logic:
  "fst (calculate_counter_logic flags symbol cnts) = counter_loop 0 0 None flags"
  by (simp add: calculate_counter_logic_def Let_def)

text \<open>
  C8. In the columns that \<^verbatim>\<open>_calculate_counter_logic\<close> computes for any sequence of
  \<open>buy\<close>/\<open>sell\<close> flags, at every row both counters are non-negative, at most one of
  them is nonzero, and both are zero exactly as long as neither \<open>buy\<close> nor \<open>sell\<close> has
  held at this row or an earlier one; from the first such row on exactly one is nonzero.
\<close>

theorem counters_mutually_exclusive:
  fixes flags :: "(bool \<times> bool) list" and symbol :: string
    and cnts :: "string \<rightharpoonup> stored_counters"
  defines "cols \<equiv> fst (calculate_counter_logic flags symbol cnts)"
  assumes "i < length flags"
  shows "0 \<le> countBuy (cols ! i) \<and> 0 \<le> countSell (cols ! i)
     \<and> (countBuy (cols ! i) = 0 \<or> countSell (cols ! i) = 0)
     \<and> (countBuy (cols ! i) = 0 \<and> countSell (cols ! i) = 0
          \<longleftrightarrow> (\<forall>j\<le>i. \<not> fst (flags ! j) \<and> \<not> snd (flags ! j)))"
  using counter_loop_inv[of 0 0 i flags None] assms(2)
  by (simp add: cols_def fst_calculate_counter_logic)

theorem counters_mutually_exclusive_witness:
  "(2 :: nat) < length [(False, False), (True, False), (False, True)]
   \<and> countBuy (fst (calculate_counter_logic [(False, False), (True, False), (False, True)]
                 ''BTC/USD'' Map.empty) ! 2) = 0
   \<and> countSell (fst (calculate_counter_logic [(False, False), (True, False), (False, True)]
                 ''BTC/USD'' Map.empty) ! 2) = 1
   \<and> 0 \<le> countSell (fst (calculate_counter_logic [(False, False), (True, False), (False, True)]
                 ''BTC/USD'' Map.empty) ! 2)"
  using counters_mutually_exclusive[of 2 "[(False, False), (True, False), (False, True)]"
          "''BTC/USD''" Map.empty]
  by (simp add: calculate_counter_logic_def counter_step.simps Let_def)

section \<open>Properties of the buy signal\<close>

lemma length_ewm_mean [simp]: "length (ewm_mean n xs) = length xs"
proof (cases xs)
  case Nil
  then show ?thesis
    by (simp add: ewm_mean_def)
next
  case (Cons a as)
  have "length (ewm_from al p ys) = length ys" for al p ys
    by (induction ys arbitrary: p) (auto simp: Let_def)
  with Cons show ?thesis
    by (simp add: ewm_mean_def)
qed

lemma length_calculate_indicators [simp]: "length (calculate_indicators st df) = length df"
  by (simp add: calculate_indicators_def Let_def split_beta)

text \<open>\<open>buy\<close> and \<open>sell\<close> compare the same two averages, so they never hold together.\<close>

lemma indicators_exclusive:
  "i < length df \<Longrightarrow>
   \<not> (buy (calculate_indicators st df ! i) \<and> sell (calculate_indicators st df ! i))"
  by (simp add: calculate_indicators_def Let_def split_beta)

text \<open>The flags depend on the closes through the fast and the slow average only.\<close>

lemma buy_sell_flags_eq:
  "buy_sell_flags (calculate_indicators st df) =
     map (\<lambda>(f, sl). (f > sl, f < sl))
       (zip (ewm_mean (fast_ema_period st) (map close df))
            (ewm_mean (slow_ema_period st) (map close df)))"
  by (rule nth_equalityI)
     (simp_all add: buy_sell_flags_def calculate_indicators_def Let_def split_beta)

lemma buysignal_step:
  assumes "0 \<le> cb"
  shows "buysignal (counter_step cb cs (Some (pb, ps)) (b, s)) \<longleftrightarrow> b \<and> \<not> s \<and> \<not> pb \<and> cb = 0"
  using assms by (auto simp: counter_step.simps Let_def)

lemma countBuy_after_sell: "countBuy (counter_step cb cs prev (b, True)) = 0"
  by (simp add: counter_step.simps Let_def)

lemma counter_loop_after_sell:
  assumes "i < length flags" and "snd (flags ! i)"
  shows "countBuy (counter_loop cb cs prev flags ! i) = 0"
proof (cases i)
  case 0
  with assms show ?thesis
    by (cases flags; cases "flags ! 0") (auto simp: countBuy_after_sell Let_def)
next
  case (Suc k)
  with assms show ?thesis
    by (cases "flags ! Suc k") (auto simp: counter_loop_nth_Suc countBuy_after_sell)
qed

lemma flags_window_touch:
  "buy_sell_flags (calculate_indicators strategy_init window_touch) =
     [(False, False), (True, False), (False, False), (True, False), (True, False)]"
  by (simp add: buy_sell_flags_eq strategy_init_def candle_at_def ewm_mean_def Let_def
                window_touch_def)

lemma flags_window_dip:
  "buy_sell_flags (calculate_indicators strategy_init window_dip) =
     [(False, False), (False, True), (True, False), (True, False)]"
  by (simp add: buy_sell_flags_eq strategy_init_def candle_at_def ewm_mean_def Let_def
                window_dip_def)

text \<open>
  C7, as the claim states it, fails. For the closes 100, 113, 90, 200, 300 (in exact
  arithmetic) the second candle is a buy, the third is neutral because the two averages
  are equal there, and the last two candles are a run of two buys. The neutral candle
  carries \<open>countBuy = 1\<close> from the earlier buy, the run starts with \<open>countBuy = 2\<close>, and
  no buy signal is set anywhere in the run.
\<close>

theorem buy_run_counterexample:
  "buy_sell_flags (calculate_indicators strategy_init window_touch) =
     [(False, False), (True, False), (False, False), (True, False), (True, False)]
   \<and> map buysignal
        (fst (calculate_counter_logic
                (buy_sell_flags (calculate_indicators strategy_init window_touch))
                ''BTC/USD'' Map.empty))
      = [False, True, False, False, False]
   \<and> map countBuy
        (fst (calculate_counter_logic
                (buy_sell_flags (calculate_indicators strategy_init window_touch))
                ''BTC/USD'' Map.empty))
      = [0, 1, 1, 2, 3]"
  unfolding flags_window_touch
  by (simp add: calculate_counter_logic_def counter_step.simps Let_def)

text \<open>
  C7, amended. Take a window and in it a run of \<open>n \<ge> 2\<close> consecutive candles, starting
  at position \<open>s \<ge> 1\<close>, that all have \<open>buy\<close> true, while the candle before the run
  has \<open>buy\<close> false. Then within the run the buy signal is true on the first candle of
  the run and only there, provided \<open>countBuy\<close> is zero at the candle before the run;
  otherwise the buy signal is true nowhere in the run. \<open>countBuy\<close> is zero at the candle
  before the run whenever that candle is a sell.
\<close>

theorem buy_run_signals_once:
  fixes st :: strategy and df :: "candle list" and symbol :: string
    and cnts :: "string \<rightharpoonup> stored_counters"
  defines "inds \<equiv> calculate_indicators st df"
  defines "cols \<equiv> fst (calculate_counter_logic (buy_sell_flags inds) symbol cnts)"
  assumes "1 \<le> s" and "2 \<le> n" and "s + n \<le> length df"
    and run: "\<forall>i. s \<le> i \<and> i < s + n \<longrightarrow> buy (inds ! i)"
    and before: "\<not> buy (inds ! (s - 1))"
  shows "(\<forall>i. s \<le> i \<and> i < s + n \<longrightarrow>
            (buysignal (cols ! i) \<longleftrightarrow> i = s \<and> countBuy (cols ! (s - 1)) = 0))
         \<and> (sell (inds ! (s - 1)) \<longrightarrow> countBuy (cols ! (s - 1)) = 0)"
proof -
  let ?flags = "buy_sell_flags inds"
  have len: "length ?flags = length df"
    by (simp add: buy_sell_flags_def inds_def)
  have cols: "cols = counter_loop 0 0 None ?flags"
    by (simp add: cols_def fst_calculate_counter_logic)
  have flag: "?flags ! i = (buy (inds ! i), sell (inds ! i))" if "i < length df" for i
    using that by (simp add: buy_sell_flags_def inds_def)
  have excl: "\<not> (buy (inds ! i) \<and> sell (inds ! i))" if "i < length df" for i
    using indicators_exclusive[OF that] by (simp add: inds_def)
  have nonneg: "0 \<le> countBuy (cols ! i)" if "i < length df" for i
    using counter_loop_inv[of 0 0 i ?flags None] that len by (simp add: cols)
  have sig: "buysignal (cols ! i) \<longleftrightarrow> i = s \<and> countBuy (cols ! (s - 1)) = 0"
    if i: "s \<le> i" "i < s + n" for i
  proof -
    obtain k where k: "i = Suc k"
      using i assms(3) by (cases i) auto
    have lt: "Suc k < length ?flags"
      using i assms k len by simp
    have kl: "k < length df"
      using lt len by simp
    have bi: "buy (inds ! i)"
      using run i by blast
    have nsi: "\<not> sell (inds ! i)"
      using excl[of i] bi i assms by auto
    have eq: "buysignal (cols ! i) \<longleftrightarrow> \<not> buy (inds ! k) \<and> countBuy (cols ! k) = 0"
      unfolding cols k counter_loop_nth_Suc[OF lt]
      using buysignal_step[OF nonneg[OF kl, unfolded cols]] bi nsi kl lt len
      by (simp add: flag k)
    show ?thesis
    proof (cases "i = s")
      case True
      then have "k = s - 1"
        using k by simp
      with eq before True show ?thesis
        by simp
    next
      case False
      then have "s \<le> k" "k < s + n"
        using i k by auto
      then have "buy (inds ! k)"
        using run by blast
      with eq False show ?thesis
        by simp
    qed
  qed
  have "countBuy (cols ! (s - 1)) = 0" if "sell (inds ! (s - 1))"
  proof -
    have l: "s - 1 < length ?flags"
      using assms len by simp
    then have "snd (?flags ! (s - 1))"
      using that flag[of "s - 1"] len by simp
    from counter_loop_after_sell[OF l this] show ?thesis
      by (simp add: cols)
  qed
  with sig show ?thesis
    by blast
qed

lemma buy_sell_flags_nth:
  "i < length df \<Longrightarrow>
   buy_sell_flags (calculate_indicators st df) ! i =
     (buy (calculate_indicators st df ! i), sell (calculate_indicators st df ! i))"
  by (simp add: buy_sell_flags_def)

theorem buy_run_signals_once_witness:
  "(1 :: nat) \<le> 2 \<and> (2 :: nat) \<le> 2 \<and> 2 + 2 \<le> length window_dip
   \<and> buy (calculate_indicators strategy_init window_dip ! 2)
   \<and> buy (calculate_indicators strategy_init window_dip ! 3)
   \<and> \<not> buy (calculate_indicators strategy_init window_dip ! 1)
   \<and> sell (calculate_indicators strategy_init window_dip ! 1)
   \<and> buysignal (fst (calculate_counter_logic
                        (buy_sell_flags (calculate_indicators strategy_init window_dip))
                        ''BTC/USD'' Map.empty) ! 2)
   \<and> \<not> buysignal (fst (calculate_counter_logic
                          (buy_sell_flags (calculate_indicators strategy_init window_dip))
                          ''BTC/USD'' Map.empty) ! 3)"
proof -
  let ?inds = "calculate_indicators strategy_init window_dip"
  let ?cols = "fst (calculate_counter_logic (buy_sell_flags ?inds) ''BTC/USD'' Map.empty)"
  have len: "length window_dip = 4"
    by (simp add: window_dip_def)
  have f1: "\<not> buy (?inds ! 1)" "sell (?inds ! 1)"
    using buy_sell_flags_nth[of 1 window_dip strategy_init]
    by (simp_all add: flags_window_dip len)
  have f2: "buy (?inds ! 2)"
    using buy_sell_flags_nth[of 2 window_dip strategy_init]
    by (simp add: flags_window_dip len)
  have f3: "buy (?inds ! 3)"
    using buy_sell_flags_nth[of 3 window_dip strategy_init]
    by (simp add: flags_window_dip len)
  have run: "\<forall>i. 2 \<le> i \<and> i < 2 + 2 \<longrightarrow> buy (?inds ! i)"
  proof (intro allI impI)
    fix i :: nat
    assume "2 \<le> i \<and> i < 2 + 2"
    then have "i = 2 \<or> i = 3"
      by auto
    then show "buy (?inds ! i)"
      using f2 f3 by auto
  qed
  have before: "\<not> buy (?inds ! (2 - 1))"
    using f1 by simp
  have h: "(1 :: nat) \<le> 2" "(2 :: nat) \<le> 2" "2 + 2 \<le> length window_dip"
    by (simp_all add: len)
  note t = buy_run_signals_once[where s = 2 and n = 2 and df = window_dip
      and st = strategy_init and symbol = "''BTC/USD''" and cnts = Map.empty,
      OF h run before]
  from t f1 have z: "countBuy (?cols ! (2 - 1)) = 0"
    by simp
  from t have "buysignal (?cols ! 2) \<longleftrightarrow> 2 = (2 :: nat) \<and> countBuy (?cols ! (2 - 1)) = 0"
    by simp
  with z have s2: "buysignal (?cols ! 2)"
    by simp
  from t have "buysignal (?cols ! 3) \<longleftrightarrow> 3 = (2 :: nat) \<and> countBuy (?cols ! (2 - 1)) = 0"
    by simp
  then have s3: "\<not> buysignal (?cols ! 3)"
    by simp
  from h f1 f2 f3 s2 s3 show ?thesis
    by simp
qed

section \<open>Properties of update\_market\_data\<close>

lemma trim_candles_nonempty:
  assumes "ohlcv_data \<noteq> []" and "0 < getattr_default (max_data_points s) 500"
  shows "trim_candles s ohlcv_data \<noteq> []"
  using assms by (auto simp: trim_candles_def py_slice_from_def Let_def)

lemma py_slice_from_map: "map f (py_slice_from i xs) = py_slice_from i (map f xs)"
  by (simp add: py_slice_from_def drop_map)

lemma map_cnt_rows:
  "length cs = n \<Longrightarrow>
   map cnt (map (\<lambda>i. \<lparr>ohlcv = f i, ind = g i, cnt = cs ! i\<rparr>) [0..<n]) = cs"
  by (auto simp: comp_def map_nth)

lemma update_market_data_unfold:
  assumes "ohlcv_data \<noteq> []"
  shows "update_market_data symbol ohlcv_data s =
    Inr (s\<lparr>market_data := (market_data s)(symbol \<mapsto> py_slice_from (- 200)
             (map (\<lambda>i. \<lparr>ohlcv = trim_candles s ohlcv_data ! i,
                          ind = calculate_indicators s (trim_candles s ohlcv_data) ! i,
                          cnt = fst (calculate_counter_logic
                                  (buy_sell_flags
                                     (calculate_indicators s (trim_candles s ohlcv_data)))
                                  symbol (counters s)) ! i\<rparr>)
                  [0..<length (trim_candles s ohlcv_data)])),
           counters := snd (calculate_counter_logic
                              (buy_sell_flags
                                 (calculate_indicators s (trim_candles s ohlcv_data)))
                              symbol (counters s))\<rparr>)"
  using assms by (simp add: update_market_data_def Let_def split_beta)

lemma snd_calculate_counter_logic:
  assumes "flags \<noteq> []"
  shows "snd (calculate_counter_logic flags symbol cnts) =
     cnts(symbol \<mapsto> \<lparr>stored_countBuy = countBuy (last (counter_loop 0 0 None flags)),
                      stored_countSell = countSell (last (counter_loop 0 0 None flags))\<rparr>)"
proof -
  have "counter_loop 0 0 None flags \<noteq> []"
    using assms by (cases flags) (auto simp: Let_def)
  then show ?thesis
    by (auto simp: calculate_counter_logic_def Let_def)
qed

text \<open>The state after an update: only the candle list and the parameters of the
  strategy determine the counter columns and the counters that are stored.\<close>

lemma update_market_data_eq:
  fixes s :: strategy and ohlcv_data :: "candle list"
  defines "df \<equiv> trim_candles s ohlcv_data"
  defines "cols \<equiv> counter_loop 0 0 None (buy_sell_flags (calculate_indicators s df))"
  assumes "ohlcv_data \<noteq> []" and "0 < getattr_default (max_data_points s) 500"
  shows "update_market_data symbol ohlcv_data s =
    Inr (s\<lparr>market_data := (market_data s)(symbol \<mapsto> py_slice_from (- 200)
             (map (\<lambda>i. \<lparr>ohlcv = df ! i, ind = calculate_indicators s df ! i,
                          cnt = cols ! i\<rparr>) [0..<length df])),
           counters := (counters s)(symbol \<mapsto>
              \<lparr>stored_countBuy = countBuy (last cols),
               stored_countSell = countSell (last cols)\<rparr>)\<rparr>)"
proof -
  let ?flags = "buy_sell_flags (calculate_indicators s df)"
  have ne: "df \<noteq> []"
    using trim_candles_nonempty[OF assms(3,4)] by (simp add: df_def)
  have "length ?flags = length df"
    by (simp add: buy_sell_flags_def)
  with ne have fne: "?flags \<noteq> []"
    by (metis length_0_conv)
  show ?thesis
    unfolding update_market_data_unfold[OF assms(3)] df_def[symmetric]
      snd_calculate_counter_logic[OF fne] fst_calculate_counter_logic cols_def[symmetric] ..
qed

lemma indicators_ignore_state:
  "calculate_indicators (s\<lparr>market_data := m, counters := c\<rparr>) df = calculate_indicators s df"
  "calculate_indicators (s\<lparr>counters := c\<rparr>) df = calculate_indicators s df"
  "trim_candles (s\<lparr>market_data := m, counters := c\<rparr>) xs = trim_candles s xs"
  "trim_candles (s\<lparr>counters := c\<rparr>) xs = trim_candles s xs"
  "calculate_indicators (s\<lparr>market_data := m\<rparr>) df = calculate_indicators s df"
  "trim_candles (s\<lparr>market_data := m\<rparr>) xs = trim_candles s xs"
  by (simp_all add: calculate_indicators_def trim_candles_def)

lemma flags_window_rise:
  "buy_sell_flags (calculate_indicators strategy_init window_rise) =
     [(False, False), (True, False)]"
  by (simp add: buy_sell_flags_eq strategy_init_def candle_at_def ewm_mean_def Let_def
                window_rise_def)

lemma trim_window_rise: "trim_candles strategy_init window_rise = window_rise"
  by (simp add: trim_candles_def strategy_init_def getattr_default_def window_rise_def)

lemma cols_window_rise:
  "counter_loop 0 0 None [(False, False), (True, False)] =
     [\<lparr>countBuy = 0, countSell = 0, buysignal = False, sellsignal = False,
       bull = False, bear = False\<rparr>,
      \<lparr>countBuy = 1, countSell = 0, buysignal = True, sellsignal = False,
       bull = False, bear = False\<rparr>]"
  by (simp add: counter_step.simps Let_def)

lemma window_rise_facts:
  "window_rise \<noteq> []" "length window_rise = 2"
  "0 < getattr_default (max_data_points strategy_init) 500"
  by (simp_all add: window_rise_def strategy_init_def getattr_default_def)

lemma first_update_eq:
  "update_market_data ''BTC/USD'' window_rise strategy_init =
     Inr (strategy_init\<lparr>market_data := (market_data strategy_init)(''BTC/USD'' \<mapsto>
            py_slice_from (- 200)
              (map (\<lambda>i. \<lparr>ohlcv = window_rise ! i,
                           ind = calculate_indicators strategy_init window_rise ! i,
                           cnt = counter_loop 0 0 None [(False, False), (True, False)] ! i\<rparr>)
                   [0..<length window_rise])),
          counters := (counters strategy_init)(''BTC/USD'' \<mapsto>
            \<lparr>stored_countBuy = countBuy (last (counter_loop 0 0 None [(False, False), (True, False)])),
             stored_countSell = countSell (last (counter_loop 0 0 None [(False, False), (True, False)]))\<rparr>)\<rparr>)"
  using update_market_data_eq[where s = strategy_init and ohlcv_data = window_rise
      and symbol = "''BTC/USD''", OF window_rise_facts(1,3)]
  unfolding trim_window_rise flags_window_rise .

lemma after_first_update_shape:
  "\<exists>M C. after_first_update = strategy_init\<lparr>market_data := M, counters := C\<rparr>
         \<and> C ''BTC/USD'' = Some \<lparr>stored_countBuy = 1, stored_countSell = 0\<rparr>"
  unfolding after_first_update_def first_update_eq cols_window_rise sum.sel
  by (rule exI, rule exI, rule conjI, rule refl) simp

lemma after_first_update_facts:
  "0 < getattr_default (max_data_points after_first_update) 500"
  "trim_candles after_first_update window_rise = window_rise"
  "buy_sell_flags (calculate_indicators after_first_update window_rise) =
     [(False, False), (True, False)]"
  "counters after_first_update ''BTC/USD'' = Some \<lparr>stored_countBuy = 1, stored_countSell = 0\<rparr>"
proof -
  obtain M C where s1: "after_first_update = strategy_init\<lparr>market_data := M, counters := C\<rparr>"
    and C: "C ''BTC/USD'' = Some \<lparr>stored_countBuy = 1, stored_countSell = 0\<rparr>"
    using after_first_update_shape by blast
  show "0 < getattr_default (max_data_points after_first_update) 500"
    using window_rise_facts(3) by (simp add: s1)
  show "trim_candles after_first_update window_rise = window_rise"
    using trim_window_rise by (simp add: s1 indicators_ignore_state)
  show "buy_sell_flags (calculate_indicators after_first_update window_rise) =
     [(False, False), (True, False)]"
    using flags_window_rise by (simp add: s1 indicators_ignore_state)
  show "counters after_first_update ''BTC/USD'' =
     Some \<lparr>stored_countBuy = 1, stored_countSell = 0\<rparr>"
    using C by (simp add: s1)
qed

text \<open>
  C1, as the claim states it, fails. A fresh strategy is updated twice for the same
  symbol with the closes 100, 113. The first call leaves \<open>countBuy = 1\<close> stored. The
  second call does not start from it: its rows have \<open>countBuy\<close> 0 and 1, and it stores 1
  again, where a loop started from the stored counters would give 1 and 2.
\<close>

theorem update_carry_counterexample:
  "\<not> isl (update_market_data ''BTC/USD'' window_rise strategy_init)
   \<and> counters after_first_update ''BTC/USD'' =
        Some \<lparr>stored_countBuy = 1, stored_countSell = 0\<rparr>
   \<and> \<not> isl (update_market_data ''BTC/USD'' window_rise after_first_update)
   \<and> map_option (map (countBuy \<circ> cnt)) (market_data after_second_update ''BTC/USD'')
        = Some [0, 1]
   \<and> counters after_second_update ''BTC/USD'' =
        Some \<lparr>stored_countBuy = 1, stored_countSell = 0\<rparr>
   \<and> map countBuy (counter_loop 1 0 None
        (buy_sell_flags (calculate_indicators after_first_update window_rise))) = [1, 2]"
proof -
  note e2 = update_market_data_eq[where s = after_first_update and ohlcv_data = window_rise
      and symbol = "''BTC/USD''", OF window_rise_facts(1) after_first_update_facts(1),
      unfolded after_first_update_facts(2,3) cols_window_rise]
  have a: "\<not> isl (update_market_data ''BTC/USD'' window_rise strategy_init)"
    using first_update_eq by simp
  have c: "\<not> isl (update_market_data ''BTC/USD'' window_rise after_first_update)"
    using e2 by simp
  have d: "map_option (map (countBuy \<circ> cnt)) (market_data after_second_update ''BTC/USD'')
             = Some [0, 1]"
    unfolding after_second_update_def e2
    by (simp add: py_slice_from_def window_rise_facts(2) upt_rec)
  have e: "counters after_second_update ''BTC/USD'' =
             Some \<lparr>stored_countBuy = 1, stored_countSell = 0\<rparr>"
    unfolding after_second_update_def e2 by simp
  have f: "map countBuy (counter_loop 1 0 None
        (buy_sell_flags (calculate_indicators after_first_update window_rise))) = [1, 2]"
    unfolding after_first_update_facts(3) by (simp add: counter_step.simps Let_def)
  from a after_first_update_facts(4) c d e f show ?thesis
    by blast
qed

text \<open>
  C1, amended. For every symbol and every call of \<^verbatim>\<open>update_market_data\<close> with a
  candle list that is not empty (and a positive bound on the retained points, 500
  unless configured), the call succeeds, and the counter columns of the window are
  those of the loop started from \<open>countBuy = 0\<close> and \<open>countSell = 0\<close>: the counters
  stored by an earlier call are not read, so the call behaves the same whatever they
  were. After the call the counters stored for the symbol are the \<open>countBuy\<close> and
  \<open>countSell\<close> of the last candle of the window, and the last 200 rows are kept.
\<close>

theorem update_restarts_counters:
  fixes s :: strategy and ohlcv_data :: "candle list"
  defines "df \<equiv> trim_candles s ohlcv_data"
  defines "cols \<equiv> counter_loop 0 0 None (buy_sell_flags (calculate_indicators s df))"
  assumes "ohlcv_data \<noteq> []" and "0 < getattr_default (max_data_points s) 500"
  shows "\<exists>s'. update_market_data symbol ohlcv_data s = Inr s'
           \<and> map_option (map cnt) (market_data s' symbol) = Some (py_slice_from (- 200) cols)
           \<and> counters s' symbol = Some \<lparr>stored_countBuy = countBuy (last cols),
                                         stored_countSell = countSell (last cols)\<rparr>
           \<and> (\<forall>c. update_market_data symbol ohlcv_data (s\<lparr>counters := c\<rparr>) =
                  Inr (s'\<lparr>counters := c(symbol \<mapsto>
                         \<lparr>stored_countBuy = countBuy (last cols),
                          stored_countSell = countSell (last cols)\<rparr>)\<rparr>))"
proof -
  have len: "length cols = length df"
    by (simp add: cols_def buy_sell_flags_def)
  have m: "map cnt (map (\<lambda>i. \<lparr>ohlcv = df ! i, ind = calculate_indicators s df ! i,
                               cnt = cols ! i\<rparr>) [0..<length df]) = cols"
    using len by (rule map_cnt_rows)
  note u = update_market_data_eq[OF assms(3,4), where symbol = symbol,
      folded df_def, folded cols_def]
  have mp: "0 < getattr_default (max_data_points (s\<lparr>counters := c\<rparr>)) 500" for c
    using assms(4) by simp
  have uc: "update_market_data symbol ohlcv_data (s\<lparr>counters := c\<rparr>) =
    Inr (s\<lparr>market_data := (market_data s)(symbol \<mapsto> py_slice_from (- 200)
             (map (\<lambda>i. \<lparr>ohlcv = df ! i, ind = calculate_indicators s df ! i,
                          cnt = cols ! i\<rparr>) [0..<length df])),
           counters := c(symbol \<mapsto>
              \<lparr>stored_countBuy = countBuy (last cols),
               stored_countSell = countSell (last cols)\<rparr>)\<rparr>)" for c
    using update_market_data_eq[OF assms(3) mp[of c], where symbol = symbol]
    by (simp add: indicators_ignore_state df_def cols_def)
  show ?thesis
    unfolding u using m uc by (simp add: py_slice_from_map)
qed

theorem update_restarts_counters_witness:
  "window_rise \<noteq> [] \<and> 0 < getattr_default (max_data_points after_first_update) 500
   \<and> update_market_data ''BTC/USD'' window_rise after_first_update = Inr after_second_update
   \<and> map_option (map cnt) (market_data after_second_update ''BTC/USD'') =
       Some (counter_loop 0 0 None [(False, False), (True, False)])
   \<and> counters after_second_update ''BTC/USD'' =
       Some \<lparr>stored_countBuy = 1, stored_countSell = 0\<rparr>"
proof -
  from update_restarts_counters[where s = after_first_update and ohlcv_data = window_rise
      and symbol = "''BTC/USD''", OF window_rise_facts(1) after_first_update_facts(1),
      unfolded after_first_update_facts(2,3)]
  obtain s' where u: "update_market_data ''BTC/USD'' window_rise after_first_update = Inr s'"
    and r: "map_option (map cnt) (market_data s' ''BTC/USD'') =
       Some (py_slice_from (- 200) (counter_loop 0 0 None [(False, False), (True, False)]))"
    and c: "counters s' ''BTC/USD'' =
       Some \<lparr>stored_countBuy = countBuy (last (counter_loop 0 0 None [(False, False), (True, False)])),
              stored_countSell = countSell (last (counter_loop 0 0 None [(False, False), (True, False)]))\<rparr>"
    by blast
  have s': "after_second_update = s'"
    by (simp add: after_second_update_def u)
  have sl: "py_slice_from (- 200) (counter_loop 0 0 None [(False, False), (True, False)])
              = counter_loop 0 0 None [(False, False), (True, False)]"
    by (simp add: py_slice_from_def del: counter_loop.simps)
  from u r[unfolded sl cols_window_rise] c[unfolded cols_window_rise]
    window_rise_facts(1) after_first_update_facts(1)
  show ?thesis
    unfolding s' cols_window_rise by (simp add: py_slice_from_def)
qed

section \<open>Properties of the request error handling\<close>

lemma sleep_fields [simp]:
  "replies (sleep d w) = replies w" "sent (sleep d w) = sent w" "now (sleep d w) = now w + max d 0"
  by (simp_all add: sleep_def)

lemma send_request_private:
  assumes "method \<noteq> ''GET''"
    and "send_request method endpoint data ex w = (ex1, w1)"
  shows "replies w1 = replies w"
    and "\<exists>n. sent w1 = sent w @ [\<lparr>req_method = method, req_endpoint = endpoint, req_data = data, req_nonce = Some n\<rparr>]
           \<and> last_nonce (nonce_mgr ex) < n \<and> last_nonce (nonce_mgr ex1) = n"
    and "lockout_until ex1 = lockout_until ex"
    and "now w \<le> now w1"
  using assms
  by (auto simp: send_request_def Let_def check_lockout_def get_nonce_def split: if_splits)

lemma make_request_api_error:
  assumes sent: "send_request method endpoint data ex w = (ex1, w1)"
    and reply: "replies w1 = (latency, response) # rest"
    and ok: "status_code response = 200"
    and body: "response_json response = Some result" "body_error result \<noteq> []"
  shows "make_request method endpoint data retry_count ex w =
     (let w2 = w1\<lparr>now := now w1 + latency, replies := rest\<rparr>;
          err = Inl (KrakenApiError (body_error result))
      in case classify_error (body_error result) of
           InvalidKey \<Rightarrow> (err, ex1\<lparr>lockout_until := now w2 + 900\<rparr>, w2)
         | InvalidNonce \<Rightarrow>
             if retry_count < 3
             then make_request method endpoint data (retry_count + 1) ex1 (sleep (1 / 10) w2)
             else (err, ex1, w2)
         | RateLimit \<Rightarrow> (err, ex1\<lparr>lockout_until := now w2 + 300\<rparr>, w2)
         | OtherError \<Rightarrow> (err, ex1, w2))"
  by (subst make_request.simps) (simp add: assms Let_def)

lemma nonce_retries_exhaust:
  assumes "method \<noteq> ''GET''"
    and "retry_count + m = 4" and "1 \<le> m"
    and "m \<le> length (replies w)"
    and "\<forall>r \<in> set (take m (replies w)). api_error_reply InvalidNonce r"
  shows "\<exists>e ex' w' new. make_request method endpoint data retry_count ex w = (Inl (KrakenApiError e), ex', w')
           \<and> sent w' = sent w @ new \<and> length new = m
           \<and> lockout_until ex' = lockout_until ex
           \<and> replies w' = drop m (replies w)
           \<and> sorted_wrt (<) (last_nonce (nonce_mgr ex) # map (the \<circ> req_nonce) new)"
  using assms(2-)
proof (induction m arbitrary: retry_count ex w)
  case 0
  then show ?case by simp
next
  case (Suc m)
  obtain ex1 w1 where s: "send_request method endpoint data ex w = (ex1, w1)"
    by (cases "send_request method endpoint data ex w")
  note sp = send_request_private[OF assms(1) s]
  let ?q = "\<lambda>n. \<lparr>req_method = method, req_endpoint = endpoint, req_data = data, req_nonce = Some n\<rparr>"
  from sp(2) obtain n where n: "sent w1 = sent w @ [?q n]"
    "last_nonce (nonce_mgr ex) < n" "last_nonce (nonce_mgr ex1) = n" by blast
  from Suc.prems(3) obtain latency response rest where r: "replies w = (latency, response) # rest"
    by (cases "replies w") auto
  with Suc.prems(4) have ne: "api_error_reply InvalidNonce (latency, response)" by simp
  then obtain body where b: "status_code response = 200" "response_json response = Some body"
     "body_error body \<noteq> []" "classify_error (body_error body) = InvalidNonce"
    by (auto simp: api_error_reply_def split: option.splits)
  let ?w2 = "w1\<lparr>now := now w1 + latency, replies := rest\<rparr>"
  have step: "make_request method endpoint data retry_count ex w =
     (if retry_count < 3
             then make_request method endpoint data (retry_count + 1) ex1 (sleep (1 / 10) ?w2)
             else (Inl (KrakenApiError (body_error body)), ex1, ?w2))"
    using make_request_api_error[OF s _ b(1,2,3), of latency rest retry_count] r sp(1) b(4)
    by (simp add: Let_def)
  show ?case
  proof (cases "m = 0")
    case True
    with Suc.prems have "retry_count = 3" by simp
    with step True n r sp show ?thesis by simp
  next
    case False
    with Suc.prems have rc: "retry_count < 3" "(retry_count + 1) + m = 4" "1 \<le> m" by auto
    let ?w3 = "sleep (1 / 10) ?w2"
    have p3: "m \<le> length (replies ?w3)" using Suc.prems(3) r by simp
    have p4: "\<forall>r \<in> set (take m (replies ?w3)). api_error_reply InvalidNonce r"
      using Suc.prems(4) r by simp
    from Suc.IH[OF rc(2,3) p3 p4, of ex1]
    obtain e ex' w' new where ih: "make_request method endpoint data (retry_count + 1) ex1 ?w3 = (Inl (KrakenApiError e), ex', w')"
      "sent w' = sent ?w3 @ new" "length new = m" "lockout_until ex' = lockout_until ex1"
      "replies w' = drop m (replies ?w3)"
      "sorted_wrt (<) (last_nonce (nonce_mgr ex1) # map (the \<circ> req_nonce) new)"
      by blast
    have "sent w' = sent w @ (?q n # new)" using ih(2) n(1) by simp
    moreover have "sorted_wrt (<) (last_nonce (nonce_mgr ex) # map (the \<circ> req_nonce) (?q n # new))"
      using ih(6) n(2,3) by auto
    moreover have "make_request method endpoint data retry_count ex w = (Inl (KrakenApiError e), ex', w')"
      using step rc(1) ih(1) by simp
    moreover have "replies w' = drop (Suc m) (replies w)" using ih(5) r by simp
    moreover have "lockout_until ex' = lockout_until ex" using ih(4) sp(3) by simp
    moreover have "length (?q n # new) = Suc m" using ih(3) by simp
    ultimately show ?thesis by blast
  qed
qed

lemma classify_examples:
  "classify_error [''EAPI:Invalid key''] = InvalidKey"
  "classify_error [''EAPI:Invalid nonce''] = InvalidNonce"
  "classify_error [''EAPI:Rate limit exceeded''] = RateLimit"
  by (simp_all add: classify_error_def py_str_list_def)

text \<open>
  C6, as the claim states it, fails for a 2xx status other than 200. A private request is
  answered with status 201 and a body whose error array is the invalid-key error: the
  call fails with the HTTP error and no lockout is set.
\<close>

theorem request_status_counterexample:
  "classify_error [''EAPI:Invalid key''] = InvalidKey
   \<and> fst (make_request ''POST'' ''/0/private/Balance'' [] 0 kraken_exchange_init
            (world_at 1000 [(1 / 4, error_reply 201 [''EAPI:Invalid key''])]))
       = Inl (HttpStatusError 201)
   \<and> lockout_until (fst (snd (make_request ''POST'' ''/0/private/Balance'' [] 0
            kraken_exchange_init
            (world_at 1000 [(1 / 4, error_reply 201 [''EAPI:Invalid key''])]))))
       = lockout_until kraken_exchange_init"
  by (simp add: classify_examples make_request.simps send_request_def check_lockout_def
      kraken_exchange_init_def world_at_def error_reply_def Let_def split_beta)

text \<open>
  C6, amended. Take a private request (a method other than GET) that is answered with
  status 200 and a body with a non-empty error array, and let the class of the error be
  the first match among invalid key, invalid nonce and rate limit. Then:
  an invalid-key error sets the lockout to 900 seconds after the reply and the call
  fails; a rate-limit error sets it to 300 seconds after the reply and the call fails; any
  other error fails the call and leaves the lockout as it was; an invalid-nonce error,
  while fewer than 3 retries have been made, continues as the same call with one more
  retry after a sleep of 0.1 seconds, and fails without a lockout after the third retry.
  Every attempt takes a nonce greater than the last one issued. If the exchange answers
  four times in a row with an invalid-nonce error, the call sends exactly four requests
  (the first and three retries) with strictly increasing nonces, fails, and leaves the
  lockout unchanged.
\<close>

theorem private_request_error_handling:
  assumes "meth \<noteq> ''GET''"
    and "send_request meth endpoint data ex w = (ex1, w1)"
    and "replies w = (latency, response) # rest"
    and "status_code response = 200"
    and "response_json response = Some body"
    and "body_error body \<noteq> []"
  shows "make_request meth endpoint data retry_count ex w =
           (case classify_error (body_error body) of
              InvalidKey \<Rightarrow>
                (Inl (KrakenApiError (body_error body)),
                 ex1\<lparr>lockout_until := now w1 + latency + 900\<rparr>,
                 w1\<lparr>now := now w1 + latency, replies := rest\<rparr>)
            | InvalidNonce \<Rightarrow>
                if retry_count < 3
                then make_request meth endpoint data (retry_count + 1) ex1
                       (sleep (1 / 10) (w1\<lparr>now := now w1 + latency, replies := rest\<rparr>))
                else (Inl (KrakenApiError (body_error body)), ex1,
                      w1\<lparr>now := now w1 + latency, replies := rest\<rparr>)
            | RateLimit \<Rightarrow>
                (Inl (KrakenApiError (body_error body)),
                 ex1\<lparr>lockout_until := now w1 + latency + 300\<rparr>,
                 w1\<lparr>now := now w1 + latency, replies := rest\<rparr>)
            | OtherError \<Rightarrow>
                (Inl (KrakenApiError (body_error body)), ex1,
                 w1\<lparr>now := now w1 + latency, replies := rest\<rparr>))
         \<and> lockout_until ex1 = lockout_until ex
         \<and> (\<exists>n. sent w1 = sent w @ [\<lparr>req_method = meth, req_endpoint = endpoint,
                                       req_data = data, req_nonce = Some n\<rparr>]
                \<and> last_nonce (nonce_mgr ex) < n \<and> last_nonce (nonce_mgr ex1) = n)
         \<and> (4 \<le> length (replies w)
              \<and> (\<forall>r \<in> set (take 4 (replies w)). api_error_reply InvalidNonce r)
            \<longrightarrow> (\<exists>e ex' w' new.
                   make_request meth endpoint data 0 ex w = (Inl (KrakenApiError e), ex', w')
                   \<and> sent w' = sent w @ new \<and> length new = 4
                   \<and> lockout_until ex' = lockout_until ex
                   \<and> sorted_wrt (<) (last_nonce (nonce_mgr ex) # map (the \<circ> req_nonce) new)))"
proof -
  note sp = send_request_private[OF assms(1,2)]
  have r1: "replies w1 = (latency, response) # rest"
    using sp(1) assms(3) by simp
  have a: "make_request meth endpoint data retry_count ex w = (case classify_error (body_error body) of
              InvalidKey \<Rightarrow>
                (Inl (KrakenApiError (body_error body)),
                 ex1\<lparr>lockout_until := now w1 + latency + 900\<rparr>,
                 w1\<lparr>now := now w1 + latency, replies := rest\<rparr>)
            | InvalidNonce \<Rightarrow>
                if retry_count < 3
                then make_request meth endpoint data (retry_count + 1) ex1
                       (sleep (1 / 10) (w1\<lparr>now := now w1 + latency, replies := rest\<rparr>))
                else (Inl (KrakenApiError (body_error body)), ex1,
                      w1\<lparr>now := now w1 + latency, replies := rest\<rparr>)
            | RateLimit \<Rightarrow>
                (Inl (KrakenApiError (body_error body)),
                 ex1\<lparr>lockout_until := now w1 + latency + 300\<rparr>,
                 w1\<lparr>now := now w1 + latency, replies := rest\<rparr>)
            | OtherError \<Rightarrow>
                (Inl (KrakenApiError (body_error body)), ex1,
                 w1\<lparr>now := now w1 + latency, replies := rest\<rparr>))"
    using make_request_api_error[OF assms(2) r1 assms(4-6), of retry_count]
    by (cases "classify_error (body_error body)") (simp_all add: Let_def)
  have d: "\<exists>e ex' w' new.
                   make_request meth endpoint data 0 ex w = (Inl (KrakenApiError e), ex', w')
                   \<and> sent w' = sent w @ new \<and> length new = 4
                   \<and> lockout_until ex' = lockout_until ex
                   \<and> sorted_wrt (<) (last_nonce (nonce_mgr ex) # map (the \<circ> req_nonce) new)"
    if "4 \<le> length (replies w)" "\<forall>r \<in> set (take 4 (replies w)). api_error_reply InvalidNonce r"
    using nonce_retries_exhaust[OF assms(1) _ _ that, of 0 endpoint data ex] by auto
  from a sp(2,3) d show ?thesis by blast
qed


theorem private_request_error_handling_witness:
  "''POST'' \<noteq> ''GET''
   \<and> replies nonce_storm =
       (1 / 4, error_reply 200 [''EAPI:Invalid nonce''])
       # [(1 / 4, error_reply 200 [''EAPI:Invalid nonce'']),
          (1 / 4, error_reply 200 [''EAPI:Invalid nonce'']),
          (1 / 4, error_reply 200 [''EAPI:Invalid nonce''])]
   \<and> status_code (error_reply 200 [''EAPI:Invalid nonce'']) = 200
   \<and> response_json (error_reply 200 [''EAPI:Invalid nonce''])
       = Some (JsonBody [''EAPI:Invalid nonce''] None)
   \<and> classify_error [''EAPI:Invalid nonce''] = InvalidNonce
   \<and> (\<exists>e ex' w' new.
         make_request ''POST'' ''/0/private/Balance'' [] 0 kraken_exchange_init nonce_storm
           = (Inl (KrakenApiError e), ex', w')
         \<and> sent w' = sent nonce_storm @ new \<and> length new = 4
         \<and> lockout_until ex' = lockout_until kraken_exchange_init
         \<and> sorted_wrt (<) (last_nonce (nonce_mgr kraken_exchange_init)
                             # map (the \<circ> req_nonce) new))"
proof -
  have h1: "''POST'' \<noteq> ''GET''"
    by simp
  have h3: "replies nonce_storm =
       (1 / 4, error_reply 200 [''EAPI:Invalid nonce''])
       # [(1 / 4, error_reply 200 [''EAPI:Invalid nonce'']),
          (1 / 4, error_reply 200 [''EAPI:Invalid nonce'']),
          (1 / 4, error_reply 200 [''EAPI:Invalid nonce''])]"
    by (simp add: nonce_storm_def world_at_def)
  have h4: "status_code (error_reply 200 [''EAPI:Invalid nonce'']) = 200"
    by (simp add: error_reply_def)
  have h5: "response_json (error_reply 200 [''EAPI:Invalid nonce''])
       = Some (JsonBody [''EAPI:Invalid nonce''] None)"
    by (simp add: error_reply_def)
  have h6: "body_error (JsonBody [''EAPI:Invalid nonce''] None) \<noteq> []"
    by simp
  have storm: "4 \<le> length (replies nonce_storm)
     \<and> (\<forall>r \<in> set (take 4 (replies nonce_storm)). api_error_reply InvalidNonce r)"
    by (simp add: h3 api_error_reply_def error_reply_def classify_examples)
  from private_request_error_handling[where meth = "''POST''"
      and endpoint = "''/0/private/Balance''" and data = "[]" and ex = kraken_exchange_init
      and w = nonce_storm, OF h1 surjective_pairing h3 h4 h5 h6] storm
  have "\<exists>e ex' w' new.
         make_request ''POST'' ''/0/private/Balance'' [] 0 kraken_exchange_init nonce_storm
           = (Inl (KrakenApiError e), ex', w')
         \<and> sent w' = sent nonce_storm @ new \<and> length new = 4
         \<and> lockout_until ex' = lockout_until kraken_exchange_init
         \<and> sorted_wrt (<) (last_nonce (nonce_mgr kraken_exchange_init)
                             # map (the \<circ> req_nonce) new)"
    by blast
  with h1 h3 h4 h5 classify_examples(2) show ?thesis
    by blast
qed

section \<open>Properties of the RSI and the stochastic RSI\<close>






lemma length_rolling [simp]: "length (rolling w agg xs) = length xs"
  by (simp add: rolling_def)





lemma length_diff [simp]: "length (diff prices) = length prices"
  by (cases prices) (auto simp: diff_def)







lemma length_rsi_gain_loss [simp]:
  "length (rsi_gain prices period) = length prices"
  "length (rsi_loss prices period) = length prices"
  by (simp_all add: rsi_gain_def rsi_loss_def)


lemma length_calculate_rsi [simp]: "length (calculate_rsi prices period) = length prices"
  by (simp add: calculate_rsi_def Let_def)










lemma length_stoch_rsi_raw [simp]: "length (stoch_rsi_raw xs n) = length xs"
  by (simp add: stoch_rsi_raw_def Let_def)


lemma fl_sub_NaN [simp]: "fl_sub x NaN = NaN" "fl_sub NaN x = NaN"
  by (cases x; simp add: fl_sub_def)+

lemma fl_mul_NaN [simp]: "fl_mul x NaN = NaN"
  by (cases x) simp_all

lemma fl_div_NaN [simp]: "fl_div x NaN = NaN"
  by (cases x) simp_all














lemma length_calculate_stochastic_rsi [simp]:
  "length (fst (calculate_stochastic_rsi xs n k d)) = length xs"
  "length (snd (calculate_stochastic_rsi xs n k d)) = length xs"
  by (simp_all add: calculate_stochastic_rsi_def Let_def)






end
